theory Spec2Isabelle
  imports Main "HOL-Library.Word" "HOL-Library.Sublist"
begin

unbundle bit_operations_syntax

section \<open>dm-verity: data model\<close>

text \<open>
  The verification target of drivers/md/dm-verity-target.c (the file that includes
  "dm-verity.h" and "dm-verity-fec.h").  Block numbers are \<open>sector_t\<close>, a 64-bit
  unsigned integer; bit counts, level counts and byte offsets stay far below their
  machine width and are natural numbers; return codes are \<open>int\<close> as in C.
\<close>

type_synonym sector_t = "64 word"
type_synonym bytes = "8 word list"

text \<open>
  Modelled from the spec: the header dm-verity.h, which declares the two enums, is not
  part of the sources.  The spec names the three policy modes (fail-fast,
  log-and-continue, attempt-restart) and the two block-type tags (data, metadata).
\<close>

datatype verity_mode = DM_VERITY_MODE_EIO | DM_VERITY_MODE_LOGGING | DM_VERITY_MODE_RESTART

datatype verity_block_type = DM_VERITY_BLOCK_TYPE_DATA | DM_VERITY_BLOCK_TYPE_METADATA

text \<open>The immutable part of \<open>struct dm_verity\<close>, as \<open>verity_ctr\<close> fills it.\<close>

record dm_verity =
  version :: nat
  data_dev_block_bits :: nat
  hash_dev_block_bits :: nat
  hash_per_block_bits :: nat
  levels :: nat
  data_blocks :: sector_t
  hash_start :: sector_t
  hash_blocks :: sector_t
  hash_level_block :: "sector_t list"
  digest_size :: nat
  root_digest :: bytes
  salt :: bytes
  zero_digest :: "bytes option"
  mode :: verity_mode

definition SECTOR_SHIFT :: nat where
  "SECTOR_SHIFT = 9"

definition DM_VERITY_MAX_CORRUPTED_ERRS :: nat where
  "DM_VERITY_MAX_CORRUPTED_ERRS = 100"

definition DM_MAX_ERR_COUNT :: int where
  "DM_MAX_ERR_COUNT = 4"

definition DM_VERITY_ENV_LENGTH :: nat where
  "DM_VERITY_ENV_LENGTH = 42"

definition DM_VERITY_ENV_VAR_NAME :: string where
  "DM_VERITY_ENV_VAR_NAME = ''DM_VERITY_ERR_BLOCK_NR''"

definition EIO :: int where
  "EIO = 5"

definition E2BIG :: int where
  "E2BIG = 7"

definition EINVAL :: int where
  "EINVAL = 22"

section \<open>Geometry: the numeric part of \<open>verity_ctr\<close>\<close>

text \<open>
  Modelled from the spec: the kernel helpers \<open>__ffs\<close> and \<open>__fls\<close> are not part of the
  sources.  The spec reads \<open>__fls\<close> as the floor of the binary logarithm
  (hashPerBlockBits = floor(log2(hashBlockSize / digestSize))); \<open>__ffs\<close> is the index
  of the lowest set bit, the binary logarithm of a power of two.
\<close>

fun fls :: "nat \<Rightarrow> nat" where
  "fls n = (if n < 2 then 0 else Suc (fls (n div 2)))"

fun ffs :: "nat \<Rightarrow> nat" where
  "ffs n = (if n = 0 \<or> odd n then 0 else Suc (ffs (n div 2)))"

declare fls.simps [simp del] ffs.simps [simp del]

text \<open>
  What \<open>verity_ctr\<close> reads from its environment and cannot compute: the logical block
  sizes of the two devices, \<open>PAGE_SIZE\<close>, the length \<open>ti->len\<close> of the target, and
  the size of the hash device in hash blocks as dm-bufio reports it, and
  \<open>DM_VERITY_MAX_LEVELS\<close>, whose defining header is not part of the sources.  Failing
  allocations, device lookups and the construction of the collaborators (transforms,
  dm-bufio client, work queue, forward error correction) are outside this model.
\<close>

record ctr_env =
  DM_VERITY_MAX_LEVELS :: nat
  PAGE_SIZE :: nat
  data_logical_block_size :: nat
  hash_logical_block_size :: nat
  ti_len :: sector_t
  hash_device_size :: sector_t

text \<open>
  The arguments after parsing (\<open>sscanf\<close>, \<open>hex2bin\<close> and the option parser are outside
  this model): \<open>argv[0]\<close>, \<open>argv[3]\<close> .. \<open>argv[6]\<close>, the digest size of the hash
  algorithm \<open>argv[7]\<close>, the root digest \<open>argv[8]\<close>, the salt \<open>argv[9]\<close>, and what the
  optional arguments select.
\<close>

record ctr_args =
  arg_version :: nat
  arg_data_block_size :: nat
  arg_hash_block_size :: nat
  arg_data_blocks :: sector_t
  arg_hash_start :: sector_t
  arg_digest_size :: nat
  arg_root_digest :: bytes
  arg_salt :: bytes
  arg_zero_digest :: "bytes option"
  arg_mode :: verity_mode

text \<open>
  A failed construction is the negative return code with the message stored in
  \<open>ti->error\<close>.  Two places of the constructor have no defined result in C (a division by
  a zero digest size, a shift of a 64-bit value by 64 or more or by a negative count); they
  are results of their own, and so is a loop that never exits.
\<close>

datatype ctr_error = Ctr_error int string | Undefined_behaviour string | Never_returns

text \<open>
  The loop of \<open>verity_ctr\<close> that derives \<open>levels\<close>:
  \<^verbatim>\<open>while (hash_per_block_bits * levels < 64 &&
         (unsigned long long)(data_blocks - 1) >> (hash_per_block_bits * levels))
      levels++;\<close>
  With \<open>hash_per_block_bits = 0\<close> and more than one data block the loop makes no
  progress and never exits: that is the result \<open>None\<close>.
\<close>

function levels_loop :: "nat \<Rightarrow> sector_t \<Rightarrow> nat \<Rightarrow> nat option" where
  "levels_loop hpb db l =
     (if hpb * l < 64 \<and> drop_bit (hpb * l) (db - 1) \<noteq> 0
      then (if hpb = 0 then None else levels_loop hpb db (l + 1))
      else Some l)"
  by pat_completeness auto
termination
  by (relation "measure (\<lambda>(hpb, db, l). 64 - hpb * l)") auto

declare levels_loop.simps [simp del]

definition derive_levels :: "nat \<Rightarrow> sector_t \<Rightarrow> nat option" where
  "derive_levels hpb db = (if db \<noteq> 0 then levels_loop hpb db 0 else Some 0)"

text \<open>
  The loop that lays the levels out on the hash device, from the top level down:
  \<^verbatim>\<open>for (i = levels - 1; i >= 0; i--) {
      hash_level_block[i] = hash_position;
      s = (data_blocks + ((sector_t)1 << ((i + 1) * hash_per_block_bits)) - 1)
              >> ((i + 1) * hash_per_block_bits);
      if (hash_position + s < hash_position) { "Hash device offset overflow" }
      hash_position += s;
  }\<close>
  The first argument is \<open>i + 1\<close>.
\<close>

fun hash_level_loop ::
  "nat \<Rightarrow> sector_t \<Rightarrow> nat \<Rightarrow> sector_t \<Rightarrow> sector_t list \<Rightarrow> ctr_error + (sector_t \<times> sector_t list)" where
  "hash_level_loop hpb db 0 hash_position hlb = Inr (hash_position, hlb)"
| "hash_level_loop hpb db (Suc i) hash_position hlb =
     (if 64 \<le> (i + 1) * hpb then Inl (Undefined_behaviour ''shift count'')
      else
        let hlb' = hlb[i := hash_position];
            s = drop_bit ((i + 1) * hpb) (db + push_bit ((i + 1) * hpb) 1 - 1)
        in if hash_position + s < hash_position
           then Inl (Ctr_error (- E2BIG) ''Hash device offset overflow'')
           else hash_level_loop hpb db i (hash_position + s) hlb')"

text \<open>
  The first part of \<open>verity_ctr\<close>, up to the assignment of \<open>hash_per_block_bits\<close>: it checks
  the arguments and stores them in the zero-allocated \<open>struct dm_verity\<close>.
\<close>

definition verity_ctr_args :: "ctr_env \<Rightarrow> ctr_args \<Rightarrow> ctr_error + dm_verity" where
  "verity_ctr_args e a =
    (if 1 < arg_version a then Inl (Ctr_error (- EINVAL) ''Invalid version'')
     else
      let num = arg_data_block_size a in
      if num = 0 \<or> num AND (num - 1) \<noteq> 0 \<or> num < data_logical_block_size e \<or> PAGE_SIZE e < num
      then Inl (Ctr_error (- EINVAL) ''Invalid data device block size'')
      else
      let dbb = ffs num; num = arg_hash_block_size a in
      if num = 0 \<or> num AND (num - 1) \<noteq> 0 \<or> num < hash_logical_block_size e \<or> 2 ^ 31 - 1 < num
      then Inl (Ctr_error (- EINVAL) ''Invalid hash device block size'')
      else
      let hbb = ffs num; num_ll = arg_data_blocks a in
      if dbb < SECTOR_SHIFT then Inl (Undefined_behaviour ''shift count'')
      else if drop_bit (dbb - SECTOR_SHIFT) (push_bit (dbb - SECTOR_SHIFT) num_ll) \<noteq> num_ll
      then Inl (Ctr_error (- EINVAL) ''Invalid data blocks'')
      else
      let db = num_ll in
      if push_bit (dbb - SECTOR_SHIFT) db < ti_len e
      then Inl (Ctr_error (- EINVAL) ''Data device is too small'')
      else
      let num_ll = arg_hash_start a in
      if hbb < SECTOR_SHIFT then Inl (Undefined_behaviour ''shift count'')
      else if drop_bit (hbb - SECTOR_SHIFT) (push_bit (hbb - SECTOR_SHIFT) num_ll) \<noteq> num_ll
      then Inl (Ctr_error (- EINVAL) ''Invalid hash start'')
      else
      let hs = num_ll; ds = arg_digest_size a in
      if 2 ^ hbb < ds * 2 then Inl (Ctr_error (- EINVAL) ''Digest size too big'')
      else if length (arg_root_digest a) \<noteq> ds
      then Inl (Ctr_error (- EINVAL) ''Invalid root digest'')
      else if ds = 0 then Inl (Undefined_behaviour ''division by zero'')
      else
      Inr \<lparr> version = arg_version a, data_dev_block_bits = dbb,
            hash_dev_block_bits = hbb, hash_per_block_bits = fls (2 ^ hbb div ds), levels = 0,
            data_blocks = db, hash_start = hs, hash_blocks = 0,
            hash_level_block = replicate (DM_VERITY_MAX_LEVELS e) 0, digest_size = ds,
            root_digest = arg_root_digest a, salt = arg_salt a,
            zero_digest = arg_zero_digest a, mode = arg_mode a \<rparr>)"

text \<open>
  \<open>verity_ctr\<close>: after the arguments, the loop that derives \<open>levels\<close>, the check against
  \<open>DM_VERITY_MAX_LEVELS\<close>, the layout of the levels and the check of the size of the hash
  device.
\<close>

definition verity_ctr :: "ctr_env \<Rightarrow> ctr_args \<Rightarrow> ctr_error + dm_verity" where
  "verity_ctr e a =
    (case verity_ctr_args e a of
       Inl err \<Rightarrow> Inl err
     | Inr v \<Rightarrow>
        (case derive_levels (hash_per_block_bits v) (data_blocks v) of
           None \<Rightarrow> Inl Never_returns
         | Some l \<Rightarrow>
             if DM_VERITY_MAX_LEVELS e < l then Inl (Ctr_error (- E2BIG) ''Too many tree levels'')
             else
               case hash_level_loop (hash_per_block_bits v) (data_blocks v) l (hash_start v)
                      (hash_level_block v) of
                 Inl err \<Rightarrow> Inl err
               | Inr (hash_position, hlb) \<Rightarrow>
                   if hash_device_size e < hash_position
                   then Inl (Ctr_error (- E2BIG) ''Hash device is too small'')
                   else Inr (v\<lparr> levels := l, hash_blocks := hash_position,
                                hash_level_block := hlb \<rparr>)))"

section \<open>Digest engine\<close>

text \<open>
  Modelled from the spec: the kernel's synchronous hash interface (\<open>crypto_shash_init\<close>,
  \<open>crypto_shash_update\<close>, \<open>crypto_shash_final\<close>) is not part of the sources.  The spec
  describes an engine as a deterministic digest function of the bytes fed to it that may
  fail with an engine error.  A transform is that function together with the return codes
  of its three entry points; a descriptor holds the selected transform and the bytes fed
  since the last init.
\<close>

record shash_tfm =
  init_rc :: int
  update_rc :: int
  final_rc :: int
  digest_fn :: "bytes \<Rightarrow> bytes"

datatype tfm_ptr = TFM_SHA2CE | TFM_SHA256

record shash_desc =
  tfm :: tfm_ptr
  buffered :: bytes

record bvec_iter =
  bi_idx :: nat
  bi_bvec_done :: nat

text \<open>
  The collaborators of the verification path: the two transforms \<open>v->tfm_sha2ce\<close> and
  \<open>v->tfm_sha256\<close>, the hash device behind dm-bufio (a read yields an error code or the
  block), the content of a buffer's auxiliary data before \<open>dm_bufio_alloc_callback\<close> ran,
  the forward error correction (return code and repaired bytes, in the buffer for a
  metadata block, in the request's segments for a data block), and the non-volatile
  store used under \<open>CONFIG_DM_VERITY_HW_RETRY\<close>.
\<close>

record verity_env =
  tfm_sha2ce :: shash_tfm
  tfm_sha256 :: shash_tfm
  hash_dev :: "sector_t \<Rightarrow> int + bytes"
  uninit_aux :: int
  verity_fec_decode_metadata :: "sector_t \<Rightarrow> bytes \<Rightarrow> int \<times> bytes"
  verity_fec_decode_data :: "sector_t \<Rightarrow> bvec_iter \<Rightarrow> bytes list \<Rightarrow> int \<times> bytes list"
  CONFIG_DM_VERITY_HW_RETRY :: bool
  nve_read_rc :: int
  nve_write_rc :: int

definition deref_tfm :: "verity_env \<Rightarrow> tfm_ptr \<Rightarrow> shash_tfm" where
  "deref_tfm e p = (case p of TFM_SHA2CE \<Rightarrow> tfm_sha2ce e | TFM_SHA256 \<Rightarrow> tfm_sha256 e)"

definition crypto_shash_init :: "verity_env \<Rightarrow> shash_desc \<Rightarrow> int \<times> shash_desc" where
  "crypto_shash_init e d = (init_rc (deref_tfm e (tfm d)), d\<lparr>buffered := []\<rparr>)"

definition crypto_shash_update :: "verity_env \<Rightarrow> shash_desc \<Rightarrow> bytes \<Rightarrow> nat \<Rightarrow> int \<times> shash_desc" where
  "crypto_shash_update e d data len =
     (update_rc (deref_tfm e (tfm d)), d\<lparr>buffered := buffered d @ take len data\<rparr>)"

definition crypto_shash_final :: "verity_env \<Rightarrow> shash_desc \<Rightarrow> bytes \<Rightarrow> int \<times> bytes" where
  "crypto_shash_final e d digest =
     (let t = deref_tfm e (tfm d)
      in (final_rc t, if final_rc t < 0 then digest else digest_fn t (buffered d)))"

text \<open>\<open>memcpy(dst, src, n)\<close> and the test \<open>memcmp(a, b, n) == 0\<close> on byte buffers.\<close>

definition memcpy :: "bytes \<Rightarrow> bytes \<Rightarrow> nat \<Rightarrow> bytes" where
  "memcpy dst src n = take n src @ drop n dst"

definition memcmp_eq :: "bytes \<Rightarrow> bytes \<Rightarrow> nat \<Rightarrow> bool" where
  "memcmp_eq a b n = (take n a = take n b)"

text \<open>\<open>verity_hash_init\<close>: selects the transform by \<open>count\<close> and feeds the salt first when
  \<open>version >= 1\<close>.\<close>

definition verity_hash_init :: "verity_env \<Rightarrow> dm_verity \<Rightarrow> shash_desc \<Rightarrow> nat \<Rightarrow> int \<times> shash_desc" where
  "verity_hash_init e v d count =
     (let d1 = d\<lparr>tfm := (if count \<noteq> 0 then TFM_SHA256 else TFM_SHA2CE)\<rparr>;
          (r, d2) = crypto_shash_init e d1
      in if r < 0 then (r, d2)
         else if 1 \<le> version v then
           (let (r, d3) = crypto_shash_update e d2 (salt v) (length (salt v))
            in if r < 0 then (r, d3) else (0, d3))
         else (0, d2))"

definition verity_hash_update ::
  "verity_env \<Rightarrow> dm_verity \<Rightarrow> shash_desc \<Rightarrow> bytes \<Rightarrow> nat \<Rightarrow> int \<times> shash_desc" where
  "verity_hash_update e v d data len = crypto_shash_update e d data len"

text \<open>\<open>verity_hash_final\<close>: feeds the salt last when \<open>version = 0\<close>, then finalises into
  \<open>digest\<close>.\<close>

definition verity_hash_final ::
  "verity_env \<Rightarrow> dm_verity \<Rightarrow> shash_desc \<Rightarrow> bytes \<Rightarrow> int \<times> shash_desc \<times> bytes" where
  "verity_hash_final e v d digest =
     (if version v = 0 then
        (let (r, d1) = crypto_shash_update e d (salt v) (length (salt v))
         in if r < 0 then (r, d1, digest)
            else (let (r, dg) = crypto_shash_final e d1 digest in (r, d1, dg)))
      else (let (r, dg) = crypto_shash_final e d digest in (r, d, dg)))"

definition verity_hash_sel_sha ::
  "verity_env \<Rightarrow> dm_verity \<Rightarrow> shash_desc \<Rightarrow> bytes \<Rightarrow> nat \<Rightarrow> bytes \<Rightarrow> nat \<Rightarrow> int \<times> shash_desc \<times> bytes" where
  "verity_hash_sel_sha e v d data len digest count =
     (let (r, d1) = verity_hash_init e v d count
      in if r < 0 then (r, d1, digest)
         else (let (r, d2) = verity_hash_update e v d1 data len
               in if r < 0 then (r, d2, digest)
                  else verity_hash_final e v d2 digest))"

definition verity_hash ::
  "verity_env \<Rightarrow> dm_verity \<Rightarrow> shash_desc \<Rightarrow> bytes \<Rightarrow> nat \<Rightarrow> bytes \<Rightarrow> int \<times> shash_desc \<times> bytes" where
  "verity_hash e v d data len digest =
     (let (r, d1) = verity_hash_init e v d 0
      in if r < 0 then (r, d1, digest)
         else (let (r, d2) = verity_hash_update e v d1 data len
               in if r < 0 then (r, d2, digest)
                  else verity_hash_final e v d2 digest))"

section \<open>Position of a hash in the tree\<close>

definition verity_position_at_level :: "dm_verity \<Rightarrow> sector_t \<Rightarrow> nat \<Rightarrow> sector_t" where
  "verity_position_at_level v block level = drop_bit (level * hash_per_block_bits v) block"

text \<open>
  \<open>verity_hash_at_level\<close> yields the hash block and the byte offset inside it; \<open>idx\<close>
  and \<open>offset\<close> are \<open>unsigned\<close>, 32 bits wide.
\<close>

definition verity_hash_at_level :: "dm_verity \<Rightarrow> sector_t \<Rightarrow> nat \<Rightarrow> sector_t \<times> nat" where
  "verity_hash_at_level v block level =
     (let position = verity_position_at_level v block level;
          hash_block = hash_level_block v ! level + drop_bit (hash_per_block_bits v) position;
          idx = unat (position AND (push_bit (hash_per_block_bits v) 1 - 1)) mod 2 ^ 32
      in (hash_block,
          if version v = 0 then (idx * digest_size v) mod 2 ^ 32
          else (idx * 2 ^ (hash_dev_block_bits v - hash_per_block_bits v)) mod 2 ^ 32))"

section \<open>Mutable state and the trace of calls\<close>

text \<open>
  The trace records, in order, the calls that leave this file (\<open>dm_bufio_read\<close>,
  \<open>dm_bufio_release\<close>, \<open>verity_fec_decode\<close>, \<open>kobject_uevent_env\<close> with the text of the
  environment variable it is given), every start of a digest computation together with the
  block it is for and the transform selected, and every entry of \<open>verity_handle_err\<close>.  It
  is an observer: no function reads it.
\<close>

datatype event =
    Bufio_read sector_t
  | Bufio_release sector_t
  | Hash_attempt verity_block_type sector_t tfm_ptr
  | Fec_decode verity_block_type sector_t
  | Handle_err verity_block_type sector_t
  | Uevent string

record dm_buffer =
  buf_data :: bytes
  hash_verified :: int

text \<open>
  The mutable fields of \<open>struct dm_verity\<close> (\<open>hash_failed\<close>, \<open>corrupted_errs\<close>,
  \<open>verify_failed_flag\<close>), the VMODE byte of the non-volatile store, the buffers that
  dm-bufio holds, and the per-request \<open>struct dm_verity_io\<close>: hash descriptor, the two
  digest buffers, the iterator \<open>io->iter\<close> and the bytes of the request's segments.
\<close>

record verity_state =
  hash_failed :: int
  corrupted_errs :: nat
  verify_failed_flag :: int
  nv_vmode :: int
  bufio :: "sector_t \<rightharpoonup> dm_buffer"
  desc :: shash_desc
  real_digest :: bytes
  want_digest :: bytes
  iter :: bvec_iter
  bio_data :: "bytes list"
  trace :: "event list"

definition dm_bufio_alloc_callback :: "dm_buffer \<Rightarrow> dm_buffer" where
  "dm_bufio_alloc_callback buf = buf\<lparr>hash_verified := 0\<rparr>"

text \<open>
  Modelled from the spec: dm-bufio is not part of the sources.  A read returns the cached
  buffer of the block; a block that is not cached is read from the hash device into a
  freshly allocated buffer, on which the allocation callback runs; a device error is
  returned as an error pointer.
\<close>

definition dm_bufio_read ::
  "verity_env \<Rightarrow> verity_state \<Rightarrow> sector_t \<Rightarrow> (int + dm_buffer) \<times> verity_state" where
  "dm_bufio_read e s blk =
     (let s1 = s\<lparr>trace := trace s @ [Bufio_read blk]\<rparr>
      in case bufio s blk of
           Some buf \<Rightarrow> (Inr buf, s1)
         | None \<Rightarrow>
            (case hash_dev e blk of
               Inl err \<Rightarrow> (Inl err, s1)
             | Inr d \<Rightarrow>
                 (let buf = dm_bufio_alloc_callback \<lparr>buf_data = d, hash_verified = uninit_aux e\<rparr>
                  in (Inr buf, s1\<lparr>bufio := (bufio s1)(blk \<mapsto> buf)\<rparr>))))"

definition dm_bufio_release :: "verity_state \<Rightarrow> sector_t \<Rightarrow> verity_state" where
  "dm_bufio_release s blk = s\<lparr>trace := trace s @ [Bufio_release blk]\<rparr>"

section \<open>Corruption policy\<close>

text \<open>
  Modelled from the spec: \<open>snprintf\<close> and the header that declares \<open>enum verity_block_type\<close>
  are not part of the sources.  The spec has the notification carry the block type and the
  block number; the format \<open>"%s=%d,%llu"\<close> prints the type as the decimal number of its
  enumerator, taken as 0 for a data block and 1 for a metadata block (the order in which
  \<open>verity_handle_err\<close> lists them), and the block as an unsigned decimal number; of the
  text only the \<open>size - 1\<close> characters that fit before the terminating zero are stored.
\<close>

definition verity_block_type_number :: "verity_block_type \<Rightarrow> nat" where
  "verity_block_type_number type =
     (case type of DM_VERITY_BLOCK_TYPE_DATA \<Rightarrow> 0 | DM_VERITY_BLOCK_TYPE_METADATA \<Rightarrow> 1)"

definition digit_char :: "nat \<Rightarrow> char" where
  "digit_char d = ''0123456789'' ! d"

fun decimal :: "nat \<Rightarrow> string" where
  "decimal n = (if n < 10 then [digit_char n] else decimal (n div 10) @ [digit_char (n mod 10)])"

declare decimal.simps [simp del]

definition snprintf :: "nat \<Rightarrow> string \<Rightarrow> string" where
  "snprintf n text = take (n - 1) text"

text \<open>
  The content of the local buffer \<open>verity_env\<close> of \<open>verity_handle_err\<close> after
  \<^verbatim>\<open>snprintf(verity_env, DM_VERITY_ENV_LENGTH, "%s=%d,%llu", DM_VERITY_ENV_VAR_NAME, type, block)\<close>.
\<close>

definition verity_env_text :: "verity_block_type \<Rightarrow> sector_t \<Rightarrow> string" where
  "verity_env_text type block =
     snprintf DM_VERITY_ENV_LENGTH
       (DM_VERITY_ENV_VAR_NAME @ ''='' @ decimal (verity_block_type_number type) @ '',''
          @ decimal (unat block))"

text \<open>\<open>verity_read_nv\<close> and \<open>verity_write_nv\<close> on the VMODE byte.\<close>

definition verity_read_nv :: "verity_env \<Rightarrow> verity_state \<Rightarrow> int" where
  "verity_read_nv e s = (if nve_read_rc e \<noteq> 0 then - 1 else nv_vmode s)"

definition verity_write_nv :: "verity_env \<Rightarrow> verity_state \<Rightarrow> int \<Rightarrow> int \<times> verity_state" where
  "verity_write_nv e s val =
     (nve_write_rc e, if nve_write_rc e = 0 then s\<lparr>nv_vmode := val mod 256\<rparr> else s)"

definition verity_handle_err ::
  "verity_env \<Rightarrow> dm_verity \<Rightarrow> verity_state \<Rightarrow> verity_block_type \<Rightarrow> sector_t \<Rightarrow> int \<times> verity_state" where
  "verity_handle_err e v s type block =
     (let s1 = s\<lparr>hash_failed := 1, trace := trace s @ [Handle_err type block]\<rparr>
      in if DM_VERITY_MAX_CORRUPTED_ERRS \<le> corrupted_errs s1 then (1, s1)
         else
           let s2 = s1\<lparr>corrupted_errs := corrupted_errs s1 + 1\<rparr>;
               s3 = s2\<lparr>trace := trace s2 @ [Uevent (verity_env_text type block)]\<rparr>
           in if mode v = DM_VERITY_MODE_LOGGING then (0, s3)
              else if mode v = DM_VERITY_MODE_RESTART then
                (if CONFIG_DM_VERITY_HW_RETRY e then
                   (let val = verity_read_nv e s3
                    in if val < 0 then (0, s3)
                       else if DM_MAX_ERR_COUNT = val then (1, s3)
                       else if verify_failed_flag s3 = 0 then
                         (let val' = (if DM_MAX_ERR_COUNT \<le> val then DM_MAX_ERR_COUNT else val + 1);
                              (w, s4) = verity_write_nv e s3 val'
                          in (0, s4\<lparr>verify_failed_flag := 1\<rparr>))
                       else (0, s3))
                 else (0, s3))
              else (1, s3))"

section \<open>Level verifier\<close>

text \<open>
  The part of \<open>verity_verify_level\<close> from the label \<open>LABEL\<close> on, for a buffer whose
  \<open>hash_verified\<close> is 0: \<open>buf\<close> is the buffer as held by the caller, and every write to it
  is a write to the buffer that dm-bufio holds.  The first component of the result is
  \<open>Some r\<close> for \<open>goto release_ret_r\<close> with that \<open>r\<close>, and \<open>None\<close> when control reaches
  the copy of the digest at \<open>data + offset\<close>.
\<close>

function verity_verify_level_LABEL ::
  "verity_env \<Rightarrow> dm_verity \<Rightarrow> sector_t \<Rightarrow> bytes \<Rightarrow> nat \<Rightarrow> dm_buffer \<Rightarrow> verity_state
     \<Rightarrow> int option \<times> dm_buffer \<times> verity_state" where
  "verity_verify_level_LABEL e v hash_block want retry_count buf s =
     (let (r, d, rd) = verity_hash_sel_sha e v (desc s) (buf_data buf)
                         (2 ^ hash_dev_block_bits v) (real_digest s) retry_count;
          s1 = s\<lparr>desc := d, real_digest := rd,
                 trace := trace s @ [Hash_attempt DM_VERITY_BLOCK_TYPE_METADATA hash_block (tfm d)]\<rparr>
      in if r < 0 then (Some r, buf, s1)
         else if memcmp_eq (real_digest s1) want (digest_size v) then
           (let buf' = buf\<lparr>hash_verified := 1\<rparr>
            in (None, buf', s1\<lparr>bufio := (bufio s1)(hash_block \<mapsto> buf')\<rparr>))
         else
           (let retry_count' = retry_count + 1
            in if retry_count' = 1
               then verity_verify_level_LABEL e v hash_block want retry_count' buf s1
               else
                 (let (fr, data') = verity_fec_decode_metadata e hash_block (buf_data buf);
                      s2 = s1\<lparr>trace := trace s1 @ [Fec_decode DM_VERITY_BLOCK_TYPE_METADATA hash_block]\<rparr>
                  in if fr = 0 then
                       (let buf' = buf\<lparr>buf_data := data', hash_verified := 1\<rparr>
                        in (None, buf', s2\<lparr>bufio := (bufio s2)(hash_block \<mapsto> buf')\<rparr>))
                     else
                       (let (h, s3) = verity_handle_err e v s2 DM_VERITY_BLOCK_TYPE_METADATA hash_block
                        in if h \<noteq> 0 then (Some (- EIO), buf, s3) else (None, buf, s3)))))"
  by pat_completeness auto
termination
  by (relation "measure (\<lambda>(e, v, hash_block, want, retry_count, buf, s). 1 - retry_count)") auto

declare verity_verify_level_LABEL.simps [simp del]

text \<open>
  \<open>verity_verify_level\<close>: the result is the return value, the content of \<open>want_digest\<close>
  on return, and the state.
\<close>

definition verity_verify_level ::
  "verity_env \<Rightarrow> dm_verity \<Rightarrow> verity_state \<Rightarrow> sector_t \<Rightarrow> nat \<Rightarrow> bool \<Rightarrow> bytes
     \<Rightarrow> int \<times> bytes \<times> verity_state" where
  "verity_verify_level e v s block level skip_unverified want =
     (let (hash_block, offset) = verity_hash_at_level v block level;
          (rd, s1) = dm_bufio_read e s hash_block
      in case rd of
           Inl err \<Rightarrow> (err, want, s1)
         | Inr buf \<Rightarrow>
            if hash_verified buf = 0 then
              (if skip_unverified then (1, want, dm_bufio_release s1 hash_block)
               else
                 (case verity_verify_level_LABEL e v hash_block want 0 buf s1 of
                    (Some r, buf', s2) \<Rightarrow> (r, want, dm_bufio_release s2 hash_block)
                  | (None, buf', s2) \<Rightarrow>
                      (0, memcpy want (drop offset (buf_data buf')) (digest_size v),
                       dm_bufio_release s2 hash_block)))
            else (0, memcpy want (drop offset (buf_data buf)) (digest_size v),
                  dm_bufio_release s1 hash_block))"

section \<open>Expected digest of a data block\<close>

text \<open>
  The loop \<open>for (i = v->levels - 1; i >= 0; i--)\<close> of \<open>verity_hash_for_block\<close>; the
  counter argument is \<open>i + 1\<close>, and \<open>r\<close> is the value \<open>r\<close> holds when the loop is entered.
\<close>

fun verity_hash_for_block_loop ::
  "verity_env \<Rightarrow> dm_verity \<Rightarrow> sector_t \<Rightarrow> nat \<Rightarrow> int \<Rightarrow> bytes \<Rightarrow> verity_state
     \<Rightarrow> int \<times> bytes \<times> verity_state" where
  "verity_hash_for_block_loop e v block 0 r digest s = (r, digest, s)"
| "verity_hash_for_block_loop e v block (Suc i) r digest s =
     (let (r', digest', s') = verity_verify_level e v s block i False digest
      in if r' \<noteq> 0 then (r', digest', s')
         else verity_hash_for_block_loop e v block i r' digest' s')"

text \<open>The result is the return value, the digest written, \<open>*is_zero\<close> and the state.\<close>

definition verity_hash_for_block ::
  "verity_env \<Rightarrow> dm_verity \<Rightarrow> verity_state \<Rightarrow> sector_t \<Rightarrow> bytes
     \<Rightarrow> int \<times> bytes \<times> bool \<times> verity_state" where
  "verity_hash_for_block e v s block digest =
     (let (r, digest1, s1) =
            (if levels v \<noteq> 0 then verity_verify_level e v s block 0 True digest
             else (0, digest, s));
          (r2, digest2, s2) =
            (if levels v \<noteq> 0 \<and> r \<le> 0 then (r, digest1, s1)
             else verity_hash_for_block_loop e v block (levels v) r
                    (memcpy digest1 (root_digest v) (digest_size v)) s1);
          is_zero = (r2 = 0 \<and>
                     (case zero_digest v of None \<Rightarrow> False
                      | Some z \<Rightarrow> memcmp_eq z digest2 (digest_size v)))
      in (r2, digest2, is_zero, s2))"

section \<open>Walking the segments of a request\<close>

text \<open>
  Modelled from the spec: the bio layer (\<open>bio_iter_iovec\<close>, \<open>bio_advance_iter\<close>) is not
  part of the sources.  The spec describes an iterator over the request's data that
  yields contiguous byte segments in order and can be rewound to a saved position.  The
  request's data is the list of its segments; an iterator is the index of the current
  segment and the number of bytes of it already passed.
\<close>

definition bio_iter_iovec :: "bytes list \<Rightarrow> bvec_iter \<Rightarrow> bytes" where
  "bio_iter_iovec segs it =
     (if bi_idx it < length segs then drop (bi_bvec_done it) (segs ! bi_idx it) else [])"

definition bio_advance_iter :: "bytes list \<Rightarrow> bvec_iter \<Rightarrow> nat \<Rightarrow> bvec_iter" where
  "bio_advance_iter segs it n =
     (if n = 0 then it
      else if bi_idx it < length segs \<and> bi_bvec_done it + n = length (segs ! bi_idx it)
      then \<lparr>bi_idx = bi_idx it + 1, bi_bvec_done = 0\<rparr>
      else it\<lparr>bi_bvec_done := bi_bvec_done it + n\<rparr>)"

text \<open>A callback works on the mapped bytes in place: \<open>bio_store\<close> puts them back.\<close>

definition bio_store :: "bytes list \<Rightarrow> bvec_iter \<Rightarrow> bytes \<Rightarrow> bytes list" where
  "bio_store segs it d =
     (if bi_idx it < length segs
      then segs[bi_idx it := take (bi_bvec_done it) (segs ! bi_idx it) @ d
                              @ drop (bi_bvec_done it + length d) (segs ! bi_idx it)]
      else segs)"

text \<open>
  \<open>verity_for_bv_block\<close>: the \<open>do ... while (todo)\<close> loop.  A callback takes the state and
  the mapped bytes and yields its return code, the state and the bytes as it leaves them.
  The result is the return value and the iterator the caller's pointer then holds.  When
  the iterator yields no byte while \<open>todo\<close> is not 0 the loop makes no progress and
  never exits: that is the result \<open>None\<close>.
\<close>

function verity_for_bv_block ::
  "(verity_state \<Rightarrow> bytes \<Rightarrow> int \<times> verity_state \<times> bytes) \<Rightarrow> nat \<Rightarrow> bvec_iter \<Rightarrow> verity_state
     \<Rightarrow> (int \<times> bvec_iter \<times> verity_state) option" where
  "verity_for_bv_block process todo it s =
     (let bv = bio_iter_iovec (bio_data s) it;
          len = (if todo \<le> length bv then todo else length bv);
          (r, s1, d') = process s (take len bv);
          s2 = s1\<lparr>bio_data := bio_store (bio_data s1) it d'\<rparr>
      in if r < 0 then Some (r, it, s2)
         else
           (let it' = bio_advance_iter (bio_data s2) it len;
                todo' = todo - len
            in if todo' \<noteq> 0
               then (if len = 0 then None else verity_for_bv_block process todo' it' s2)
               else Some (0, it', s2)))"
  by pat_completeness auto
termination
  by (relation "measure (\<lambda>(process, todo, it, s). todo)") auto

declare verity_for_bv_block.simps [simp del]

definition verity_bv_hash_update ::
  "verity_env \<Rightarrow> dm_verity \<Rightarrow> verity_state \<Rightarrow> bytes \<Rightarrow> int \<times> verity_state \<times> bytes" where
  "verity_bv_hash_update e v s data =
     (let (r, d) = verity_hash_update e v (desc s) data (length data)
      in (r, s\<lparr>desc := d\<rparr>, data))"

definition verity_bv_zero :: "verity_state \<Rightarrow> bytes \<Rightarrow> int \<times> verity_state \<times> bytes" where
  "verity_bv_zero s data = (0, s, replicate (length data) 0)"

section \<open>Verification of a request\<close>

text \<open>
  The body of the loop of \<open>verity_verify_io\<close> for the data block \<open>blk = io->block + b\<close>,
  from the label \<open>LABEL\<close> on.  \<open>start_retry\<close> is the local of that name; the pass with
  \<open>retry_count = 0\<close> assigns it before any use.  The result is \<open>None\<close> when a segment
  walk never exits; otherwise \<open>Some r\<close> for \<open>return r\<close> and \<open>None\<close> for going on to the
  next block, with the state.
\<close>

function verity_verify_io_LABEL ::
  "verity_env \<Rightarrow> dm_verity \<Rightarrow> sector_t \<Rightarrow> nat \<Rightarrow> bvec_iter \<Rightarrow> verity_state
     \<Rightarrow> (int option \<times> verity_state) option" where
  "verity_verify_io_LABEL e v blk retry_count start_retry s =
     (let (r, digest, is_zero, s0) = verity_hash_for_block e v s blk (want_digest s);
          s1 = s0\<lparr>want_digest := digest\<rparr>
      in if r < 0 then Some (Some r, s1)
         else if is_zero then
           (case verity_for_bv_block verity_bv_zero (2 ^ data_dev_block_bits v) (iter s1) s1 of
              None \<Rightarrow> None
            | Some (r, it, s2) \<Rightarrow>
                (let s3 = s2\<lparr>iter := it\<rparr>
                 in if r < 0 then Some (Some r, s3) else Some (None, s3)))
         else
           (let (r, d) = verity_hash_init e v (desc s1) retry_count;
                s2 = s1\<lparr>desc := d,
                        trace := trace s1 @ [Hash_attempt DM_VERITY_BLOCK_TYPE_DATA blk (tfm d)]\<rparr>
            in if r < 0 then Some (Some r, s2)
               else
                 (let start = (if retry_count = 0 then iter s2 else start_retry);
                      start_retry = start
                  in case verity_for_bv_block (verity_bv_hash_update e v)
                            (2 ^ data_dev_block_bits v) start s2 of
                       None \<Rightarrow> None
                     | Some (r, it, s3) \<Rightarrow>
                        (let s4 = (if retry_count = 0 then s3\<lparr>iter := it\<rparr> else s3)
                         in if r < 0 then Some (Some r, s4)
                            else
                              (let (r, d, rd) = verity_hash_final e v (desc s4) (real_digest s4);
                                   s5 = s4\<lparr>desc := d, real_digest := rd\<rparr>
                               in if r < 0 then Some (Some r, s5)
                                  else if memcmp_eq (real_digest s5) (want_digest s5) (digest_size v)
                                  then Some (None, s5)
                                  else
                                    (let retry_count' = retry_count + 1
                                     in if retry_count' = 1
                                        then verity_verify_io_LABEL e v blk retry_count' start_retry s5
                                        else
                                          (let (fr, bio') = verity_fec_decode_data e blk start (bio_data s5);
                                               s6 = s5\<lparr>trace := trace s5 @ [Fec_decode DM_VERITY_BLOCK_TYPE_DATA blk]\<rparr>
                                           in if fr = 0 then Some (None, s6\<lparr>bio_data := bio'\<rparr>)
                                              else
                                                (let (h, s7) = verity_handle_err e v s6 DM_VERITY_BLOCK_TYPE_DATA blk
                                                 in if h \<noteq> 0 then Some (Some (- EIO), s7)
                                                    else Some (None, s7)))))))))"
  by pat_completeness auto
termination
  by (relation "measure (\<lambda>(e, v, blk, retry_count, start_retry, s). 1 - retry_count)") auto

declare verity_verify_io_LABEL.simps [simp del]

text \<open>
  \<open>verity_verify_io\<close>: the loop \<open>for (b = 0; b < io->n_blocks; b++)\<close> over the blocks
  \<open>io->block + b\<close> of the request.
\<close>

function verity_verify_io_loop ::
  "verity_env \<Rightarrow> dm_verity \<Rightarrow> sector_t \<Rightarrow> nat \<Rightarrow> nat \<Rightarrow> verity_state \<Rightarrow> (int \<times> verity_state) option" where
  "verity_verify_io_loop e v block n_blocks b s =
     (if b < n_blocks then
        (case verity_verify_io_LABEL e v (block + of_nat b) 0 (iter s) s of
           None \<Rightarrow> None
         | Some (Some r, s') \<Rightarrow> Some (r, s')
         | Some (None, s') \<Rightarrow> verity_verify_io_loop e v block n_blocks (b + 1) s')
      else Some (0, s))"
  by pat_completeness auto
termination
  by (relation "measure (\<lambda>(e, v, block, n_blocks, b, s). n_blocks - b)") auto

declare verity_verify_io_loop.simps [simp del]

definition verity_verify_io ::
  "verity_env \<Rightarrow> dm_verity \<Rightarrow> sector_t \<Rightarrow> nat \<Rightarrow> verity_state \<Rightarrow> (int \<times> verity_state) option" where
  "verity_verify_io e v block n_blocks s = verity_verify_io_loop e v block n_blocks 0 s"

section \<open>Notions used to state the properties\<close>

text \<open>
  The condition on which the loop that derives \<open>levels\<close> stops at \<open>L\<close>, and \<open>L\<close> being the
  smallest number on which it stops.
\<close>

definition levels_stop :: "nat \<Rightarrow> sector_t \<Rightarrow> nat \<Rightarrow> bool" where
  "levels_stop hpb db L = (64 \<le> hpb * L \<or> drop_bit (hpb * L) (db - 1) = 0)"

definition smallest_level :: "nat \<Rightarrow> sector_t \<Rightarrow> nat \<Rightarrow> bool" where
  "smallest_level hpb db L = (levels_stop hpb db L \<and> (\<forall>L' < L. \<not> levels_stop hpb db L'))"

text \<open>The events that a call appended to the trace.\<close>

definition new_events :: "verity_state \<Rightarrow> verity_state \<Rightarrow> event list" where
  "new_events s s' = drop (length (trace s)) (trace s')"

text \<open>
  The events that are an attempt on a block (a digest computation, a repair, a consultation
  of the corruption policy), those among them that are about one given block, and the
  fixed order of attempts on one block.
\<close>

fun is_attempt :: "event \<Rightarrow> bool" where
  "is_attempt (Hash_attempt ty blk t) = True"
| "is_attempt (Fec_decode ty blk) = True"
| "is_attempt (Handle_err ty blk) = True"
| "is_attempt ev = False"

fun concerns :: "verity_block_type \<Rightarrow> sector_t \<Rightarrow> event \<Rightarrow> bool" where
  "concerns ty blk (Hash_attempt ty' blk' t) = (ty' = ty \<and> blk' = blk)"
| "concerns ty blk (Fec_decode ty' blk') = (ty' = ty \<and> blk' = blk)"
| "concerns ty blk (Handle_err ty' blk') = (ty' = ty \<and> blk' = blk)"
| "concerns ty blk ev = False"

definition fallback_sequence :: "verity_block_type \<Rightarrow> sector_t \<Rightarrow> event list" where
  "fallback_sequence ty blk =
     [Hash_attempt ty blk TFM_SHA2CE, Hash_attempt ty blk TFM_SHA256,
      Fec_decode ty blk, Handle_err ty blk]"

text \<open>
  The bytes that a digest computation feeds to the transform for the content \<open>data\<close>: the
  salt placed as the format version demands.
\<close>

definition salted :: "dm_verity \<Rightarrow> bytes \<Rightarrow> bytes" where
  "salted v data = (if 1 \<le> version v then salt v @ data else data @ salt v)"

text \<open>
  How the buffers of dm-bufio may differ between two states when \<open>hash_verified\<close> is only
  ever initialised to 0 and set to 1: a buffer that was there is still there, with the
  flag it had or with 1; a buffer that was not there has the flag 0 or 1.
\<close>

definition flags_mono :: "verity_state \<Rightarrow> verity_state \<Rightarrow> bool" where
  "flags_mono s s' =
     (\<forall>blk. case bufio s blk of
              None \<Rightarrow> (case bufio s' blk of
                          None \<Rightarrow> True
                        | Some b' \<Rightarrow> hash_verified b' = 0 \<or> hash_verified b' = 1)
            | Some b \<Rightarrow> (case bufio s' blk of
                          None \<Rightarrow> False
                        | Some b' \<Rightarrow> hash_verified b' = hash_verified b \<or> hash_verified b' = 1))"

text \<open>
  The position of an iterator counted in bytes from the start of the request, and the
  iterators from which \<open>n\<close> more bytes can be walked: the iterator stands inside a segment,
  no later segment is empty, and \<open>n\<close> bytes are left.
\<close>

definition flat_pos :: "bytes list \<Rightarrow> bvec_iter \<Rightarrow> nat" where
  "flat_pos segs it = length (concat (take (bi_idx it) segs)) + bi_bvec_done it"

definition iter_ok :: "bytes list \<Rightarrow> bvec_iter \<Rightarrow> nat \<Rightarrow> bool" where
  "iter_ok segs it n =
     (n = 0 \<or>
      (bi_idx it < length segs \<and> bi_bvec_done it < length (segs ! bi_idx it) \<and>
       (\<forall>j < length segs. bi_idx it < j \<longrightarrow> segs ! j \<noteq> []) \<and>
       flat_pos segs it + n \<le> length (concat segs)))"

text \<open>The events that \<open>verity_verify_level\<close> can emit while it works on the hash block \<open>hb\<close>,
  the two calls to dm-bufio apart.\<close>

definition meta_event :: "sector_t \<Rightarrow> event \<Rightarrow> bool" where
  "meta_event hb ev = (ev \<in> {Hash_attempt DM_VERITY_BLOCK_TYPE_METADATA hb TFM_SHA2CE,
      Hash_attempt DM_VERITY_BLOCK_TYPE_METADATA hb TFM_SHA256,
      Fec_decode DM_VERITY_BLOCK_TYPE_METADATA hb,
      Handle_err DM_VERITY_BLOCK_TYPE_METADATA hb,
      Uevent (verity_env_text DM_VERITY_BLOCK_TYPE_METADATA hb)})"

text \<open>Two states that differ at most in the hash descriptor and in the bytes of the request.\<close>

definition only_io_changed :: "verity_state \<Rightarrow> verity_state \<Rightarrow> bool" where
  "only_io_changed s s' = (s' = s\<lparr>desc := desc s', bio_data := bio_data s'\<rparr>)"


text \<open>
  The repair of the hash block of \<open>block\<close> at \<open>level\<close>, as read by \<open>verity_verify_level\<close>,
  succeeds.
\<close>

definition metadata_repaired ::
  "verity_env \<Rightarrow> dm_verity \<Rightarrow> verity_state \<Rightarrow> sector_t \<Rightarrow> nat \<Rightarrow> bool" where
  "metadata_repaired e v s block level =
     (case fst (dm_bufio_read e s (fst (verity_hash_at_level v block level))) of
        Inl err \<Rightarrow> False
      | Inr buf \<Rightarrow>
          fst (verity_fec_decode_metadata e (fst (verity_hash_at_level v block level))
                 (buf_data buf)) = 0)"

text \<open>
  Two states that agree on what the verification of the hash tree reads: the buffers that
  dm-bufio holds and the counters of the corruption policy.
\<close>

definition same_tree_state :: "verity_state \<Rightarrow> verity_state \<Rightarrow> bool" where
  "same_tree_state s t =
     (bufio s = bufio t \<and> corrupted_errs s = corrupted_errs t \<and>
      verify_failed_flag s = verify_failed_flag t \<and> nv_vmode s = nv_vmode t)"




section \<open>Concrete instances\<close>

text \<open>
  The geometry of the scenario with 4 KiB blocks: 4096-byte data and hash blocks, 32-byte
  digests, 1024 data blocks, the hash tree starting at block 1 of a hash device of 16
  blocks.
\<close>

definition ctr_env_4k :: ctr_env where
  "ctr_env_4k = \<lparr> DM_VERITY_MAX_LEVELS = 63, PAGE_SIZE = 4096,
                  data_logical_block_size = 512, hash_logical_block_size = 512,
                  ti_len = 8192, hash_device_size = 16 \<rparr>"

definition ctr_args_4k :: ctr_args where
  "ctr_args_4k = \<lparr> arg_version = 1, arg_data_block_size = 4096, arg_hash_block_size = 4096,
                   arg_data_blocks = 1024, arg_hash_start = 1, arg_digest_size = 32,
                   arg_root_digest = replicate 32 0, arg_salt = [],
                   arg_zero_digest = None, arg_mode = DM_VERITY_MODE_EIO \<rparr>"

definition dm_verity_4k :: dm_verity where
  "dm_verity_4k = \<lparr> version = 1, data_dev_block_bits = 12, hash_dev_block_bits = 12,
                    hash_per_block_bits = 7, levels = 2, data_blocks = 1024, hash_start = 1,
                    hash_blocks = 10,
                    hash_level_block = (replicate 63 0)[1 := 1, 0 := 2],
                    digest_size = 32, root_digest = replicate 32 0, salt = [],
                    zero_digest = None, mode = DM_VERITY_MODE_EIO \<rparr>"

text \<open>
  A geometry whose tree is deeper than \<open>DM_VERITY_MAX_LEVELS\<close> = 63: 512-byte blocks and
  256-byte digests, so two digests per hash block, and \<open>2 ^ 63 + 1\<close> data blocks.
\<close>

definition ctr_args_deep :: ctr_args where
  "ctr_args_deep = ctr_args_4k\<lparr> arg_data_block_size := 512, arg_hash_block_size := 512,
                                 arg_data_blocks := 9223372036854775809, arg_digest_size := 256,
                                 arg_root_digest := replicate 256 0 \<rparr>"




text \<open>
  A small target for running the verification path: 4-byte blocks, 2-byte digests (two
  digests per hash block), two data blocks, one tree level whose only block is block 1 of
  the hash device.  Both transforms compute the same toy digest (the sum of the bytes and
  their number); the hash block on the device matches its root digest; no repair succeeds.
\<close>

definition toy_digest :: "bytes \<Rightarrow> bytes" where
  "toy_digest bs = [sum_list bs, of_nat (length bs)]"

definition toy_tfm :: shash_tfm where
  "toy_tfm = \<lparr> init_rc = 0, update_rc = 0, final_rc = 0, digest_fn = toy_digest \<rparr>"

definition toy_env :: verity_env where
  "toy_env = \<lparr> tfm_sha2ce = toy_tfm, tfm_sha256 = toy_tfm,
               hash_dev = (\<lambda>blk. if blk = 1 then Inr [3, 4, 7, 4] else Inl (- 5)),
               uninit_aux = 7,
               verity_fec_decode_metadata = (\<lambda>blk d. (- 1, d)),
               verity_fec_decode_data = (\<lambda>blk it segs. (- 1, segs)),
               CONFIG_DM_VERITY_HW_RETRY = False, nve_read_rc = 0, nve_write_rc = 0 \<rparr>"

definition toy_verity :: dm_verity where
  "toy_verity = \<lparr> version = 1, data_dev_block_bits = 2, hash_dev_block_bits = 2,
                  hash_per_block_bits = 1, levels = 1, data_blocks = 2, hash_start = 1,
                  hash_blocks = 2, hash_level_block = [1], digest_size = 2,
                  root_digest = [18, 4], salt = [], zero_digest = None,
                  mode = DM_VERITY_MODE_LOGGING \<rparr>"

definition toy_state :: verity_state where
  "toy_state = \<lparr> hash_failed = 0, corrupted_errs = 0, verify_failed_flag = 0, nv_vmode = 0,
                 bufio = Map.empty, desc = \<lparr> tfm = TFM_SHA2CE, buffered = [] \<rparr>,
                 real_digest = [0, 0], want_digest = [0, 0],
                 iter = \<lparr> bi_idx = 0, bi_bvec_done = 0 \<rparr>,
                 bio_data = [[1, 1, 1], [0, 5, 1, 1, 9, 9]], trace = [] \<rparr>"

text \<open>
  The same small target with no tree level: one data block, whose digest is the root
  digest, and the digest of a block of zeros configured as \<open>zero_digest\<close>.
\<close>

definition toy_zero_verity :: dm_verity where
  "toy_zero_verity = toy_verity\<lparr> levels := 0, data_blocks := 1, hash_level_block := [],
                                  root_digest := [0, 4], zero_digest := Some [0, 4] \<rparr>"



section \<open>Verified properties\<close>

subsection \<open>Corruption policy\<close>

lemma handle_err_below:
  "corrupted_errs s < DM_VERITY_MAX_CORRUPTED_ERRS \<Longrightarrow> mode v = DM_VERITY_MODE_LOGGING \<Longrightarrow>
   verity_handle_err e v s ty blk =
     (0, s\<lparr>hash_failed := 1, corrupted_errs := corrupted_errs s + 1,
           trace := trace s @ [Handle_err ty blk, Uevent (verity_env_text ty blk)]\<rparr>)"
  by (simp add: verity_handle_err_def Let_def)

lemma handle_err_saturated:
  "DM_VERITY_MAX_CORRUPTED_ERRS \<le> corrupted_errs s \<Longrightarrow>
   verity_handle_err e v s ty blk =
     (1, s\<lparr>hash_failed := 1, trace := trace s @ [Handle_err ty blk]\<rparr>)"
  by (simp add: verity_handle_err_def Let_def)



text \<open>
  C3.  In the mode \<open>DM_VERITY_MODE_LOGGING\<close>, a call of \<open>verity_handle_err\<close> made while
  \<open>corrupted_errs\<close> is below \<open>DM_VERITY_MAX_CORRUPTED_ERRS\<close> = 100 returns 0 and counts the
  event; a call made when the counter has reached the maximum returns 1, whatever the
  mode, and leaves the counter as it is.
\<close>

theorem handle_err_logging_threshold:
  "DM_VERITY_MAX_CORRUPTED_ERRS = 100 \<and>
   (mode v = DM_VERITY_MODE_LOGGING \<and> corrupted_errs s < DM_VERITY_MAX_CORRUPTED_ERRS \<longrightarrow>
      fst (verity_handle_err e v s ty blk) = 0 \<and>
      corrupted_errs (snd (verity_handle_err e v s ty blk)) = corrupted_errs s + 1) \<and>
   (DM_VERITY_MAX_CORRUPTED_ERRS \<le> corrupted_errs s \<longrightarrow>
      fst (verity_handle_err e v s ty blk) = 1 \<and>
      corrupted_errs (snd (verity_handle_err e v s ty blk)) = corrupted_errs s)"
  by (simp add: handle_err_below handle_err_saturated) (simp add: DM_VERITY_MAX_CORRUPTED_ERRS_def)

theorem handle_err_logging_threshold_witness:
  "mode toy_verity = DM_VERITY_MODE_LOGGING \<and>
   corrupted_errs (toy_state\<lparr>corrupted_errs := 99\<rparr>) < DM_VERITY_MAX_CORRUPTED_ERRS \<and>
   fst (verity_handle_err toy_env toy_verity (toy_state\<lparr>corrupted_errs := 99\<rparr>)
          DM_VERITY_BLOCK_TYPE_DATA 5) = 0 \<and>
   DM_VERITY_MAX_CORRUPTED_ERRS \<le> corrupted_errs (toy_state\<lparr>corrupted_errs := 100\<rparr>) \<and>
   fst (verity_handle_err toy_env toy_verity (toy_state\<lparr>corrupted_errs := 100\<rparr>)
          DM_VERITY_BLOCK_TYPE_DATA 5) = 1"
proof -
  have a: "mode toy_verity = DM_VERITY_MODE_LOGGING"
    by (simp add: toy_verity_def)
  have b: "corrupted_errs (toy_state\<lparr>corrupted_errs := 99\<rparr>) < DM_VERITY_MAX_CORRUPTED_ERRS"
    by (simp add: DM_VERITY_MAX_CORRUPTED_ERRS_def)
  have c: "DM_VERITY_MAX_CORRUPTED_ERRS \<le> corrupted_errs (toy_state\<lparr>corrupted_errs := 100\<rparr>)"
    by (simp add: DM_VERITY_MAX_CORRUPTED_ERRS_def)
  from a b c
    handle_err_logging_threshold [of toy_verity "toy_state\<lparr>corrupted_errs := 99\<rparr>"
      toy_env DM_VERITY_BLOCK_TYPE_DATA 5]
    handle_err_logging_threshold [of toy_verity "toy_state\<lparr>corrupted_errs := 100\<rparr>"
      toy_env DM_VERITY_BLOCK_TYPE_DATA 5]
  show ?thesis by blast
qed










subsection \<open>Digest engine\<close>

lemma hash_sel_sha_digest:
  assumes "0 \<le> fst (verity_hash_sel_sha e v d data len digest count)"
  shows "snd (snd (verity_hash_sel_sha e v d data len digest count)) =
           digest_fn (deref_tfm e (if count \<noteq> 0 then TFM_SHA256 else TFM_SHA2CE))
             (salted v (take len data))"
  using assms
  by (auto simp: verity_hash_sel_sha_def verity_hash_init_def verity_hash_update_def
        verity_hash_final_def crypto_shash_init_def crypto_shash_update_def
        crypto_shash_final_def salted_def Let_def split: if_splits prod.splits)

lemma hash_sel_sha_tfm:
  "tfm (fst (snd (verity_hash_sel_sha e v d data len digest count))) =
     (if count \<noteq> 0 then TFM_SHA256 else TFM_SHA2CE)"
  by (auto simp: verity_hash_sel_sha_def verity_hash_init_def verity_hash_update_def
        verity_hash_final_def crypto_shash_init_def crypto_shash_update_def
        crypto_shash_final_def Let_def split: if_splits prod.splits)

lemma hash_init_buffered:
  "0 \<le> fst (verity_hash_init e v d count) \<Longrightarrow>
     buffered (snd (verity_hash_init e v d count)) = (if 1 \<le> version v then salt v else []) \<and>
     tfm (snd (verity_hash_init e v d count)) = (if count \<noteq> 0 then TFM_SHA256 else TFM_SHA2CE)"
  by (auto simp: verity_hash_init_def crypto_shash_init_def crypto_shash_update_def Let_def
        split: if_splits prod.splits)

lemma hash_final_digest:
  "0 \<le> fst (verity_hash_final e v d digest) \<Longrightarrow>
     snd (snd (verity_hash_final e v d digest)) =
       digest_fn (deref_tfm e (tfm d)) (if version v = 0 then buffered d @ salt v else buffered d)"
  by (auto simp: verity_hash_final_def crypto_shash_update_def crypto_shash_final_def Let_def
        split: if_splits prod.splits)

text \<open>
  C8.  A digest computation that does not fail yields the digest function of the selected
  transform (\<open>tfm_sha2ce\<close> for \<open>count = 0\<close>, \<open>tfm_sha256\<close> otherwise) applied to the salt
  followed by the content when \<open>version >= 1\<close>, and to the content followed by the salt when
  \<open>version = 0\<close>; the bytes fed do not depend on the transform selected.  The same holds
  where the content is streamed between \<open>verity_hash_init\<close> and \<open>verity_hash_final\<close>: the
  first feeds the salt exactly when \<open>version >= 1\<close>, the second exactly when \<open>version = 0\<close>.
\<close>

theorem hash_salt_placement:
  "(0 \<le> fst (verity_hash_sel_sha e v d data len digest count) \<longrightarrow>
      snd (snd (verity_hash_sel_sha e v d data len digest count)) =
        digest_fn (deref_tfm e (if count \<noteq> 0 then TFM_SHA256 else TFM_SHA2CE))
          (salted v (take len data))) \<and>
   (1 \<le> version v \<longrightarrow> salted v (take len data) = salt v @ take len data) \<and>
   (version v = 0 \<longrightarrow> salted v (take len data) = take len data @ salt v) \<and>
   verity_hash e v d data len digest = verity_hash_sel_sha e v d data len digest 0 \<and>
   (0 \<le> fst (verity_hash_init e v d count) \<longrightarrow>
      buffered (snd (verity_hash_init e v d count)) = (if 1 \<le> version v then salt v else []) \<and>
      tfm (snd (verity_hash_init e v d count)) = (if count \<noteq> 0 then TFM_SHA256 else TFM_SHA2CE)) \<and>
   (0 \<le> fst (verity_hash_final e v d digest) \<longrightarrow>
      snd (snd (verity_hash_final e v d digest)) =
        digest_fn (deref_tfm e (tfm d))
          (if version v = 0 then buffered d @ salt v else buffered d))"
  using hash_init_buffered [of e v d count] hash_final_digest [of e v d digest]
  by (simp add: hash_sel_sha_digest) (simp add: salted_def verity_hash_def verity_hash_sel_sha_def)

theorem hash_salt_placement_witness:
  "0 \<le> fst (verity_hash_sel_sha toy_env (toy_verity\<lparr>salt := [1, 2]\<rparr>) (desc toy_state)
             [3, 4, 7, 4] 4 [0, 0] 1) \<and>
   snd (snd (verity_hash_sel_sha toy_env (toy_verity\<lparr>salt := [1, 2]\<rparr>) (desc toy_state)
             [3, 4, 7, 4] 4 [0, 0] 1)) = toy_digest [1, 2, 3, 4, 7, 4] \<and>
   0 \<le> fst (verity_hash_sel_sha toy_env (toy_verity\<lparr>salt := [1, 2], version := 0\<rparr>)
             (desc toy_state) [3, 4, 7, 4] 4 [0, 0] 0) \<and>
   snd (snd (verity_hash_sel_sha toy_env (toy_verity\<lparr>salt := [1, 2], version := 0\<rparr>)
             (desc toy_state) [3, 4, 7, 4] 4 [0, 0] 0)) = toy_digest [3, 4, 7, 4, 1, 2] \<and>
   0 \<le> fst (verity_hash_init toy_env (toy_verity\<lparr>salt := [1, 2]\<rparr>) (desc toy_state) 1) \<and>
   snd (verity_hash_init toy_env (toy_verity\<lparr>salt := [1, 2]\<rparr>) (desc toy_state) 1)
     = \<lparr>tfm = TFM_SHA256, buffered = [1, 2]\<rparr> \<and>
   0 \<le> fst (verity_hash_init toy_env (toy_verity\<lparr>salt := [1, 2], version := 0\<rparr>)
             (desc toy_state) 0) \<and>
   snd (verity_hash_init toy_env (toy_verity\<lparr>salt := [1, 2], version := 0\<rparr>) (desc toy_state) 0)
     = \<lparr>tfm = TFM_SHA2CE, buffered = []\<rparr> \<and>
   0 \<le> fst (verity_hash_final toy_env (toy_verity\<lparr>salt := [1, 2]\<rparr>) (desc toy_state) [0, 0]) \<and>
   snd (snd (verity_hash_final toy_env (toy_verity\<lparr>salt := [1, 2]\<rparr>) (desc toy_state) [0, 0]))
     = toy_digest [] \<and>
   0 \<le> fst (verity_hash_final toy_env (toy_verity\<lparr>salt := [1, 2], version := 0\<rparr>)
             (desc toy_state) [0, 0]) \<and>
   snd (snd (verity_hash_final toy_env (toy_verity\<lparr>salt := [1, 2], version := 0\<rparr>)
             (desc toy_state) [0, 0])) = toy_digest [1, 2]"
  using hash_salt_placement [of toy_env "toy_verity\<lparr>salt := [1, 2]\<rparr>" "desc toy_state"
          "[3, 4, 7, 4]" 4 "[0, 0]" 1]
        hash_salt_placement [of toy_env "toy_verity\<lparr>salt := [1, 2], version := 0\<rparr>"
          "desc toy_state" "[3, 4, 7, 4]" 4 "[0, 0]" 0]
  by (simp add: toy_env_def toy_verity_def toy_state_def toy_tfm_def deref_tfm_def
        verity_hash_sel_sha_def verity_hash_init_def verity_hash_update_def
        verity_hash_final_def crypto_shash_init_def crypto_shash_update_def
        crypto_shash_final_def salted_def Let_def)

subsection \<open>Geometry\<close>

lemma levels_loop_smallest:
  "levels_loop hpb db l = Some L \<Longrightarrow>
     l \<le> L \<and> levels_stop hpb db L \<and> (\<forall>L'. l \<le> L' \<and> L' < L \<longrightarrow> \<not> levels_stop hpb db L')"
proof (induction hpb db l rule: levels_loop.induct)
  case (1 hpb db l)
  show ?case
  proof (cases "hpb * l < 64 \<and> drop_bit (hpb * l) (db - 1) \<noteq> 0")
    case True
    with "1.prems" have nz: "hpb \<noteq> 0" and rec: "levels_loop hpb db (l + 1) = Some L"
      by (auto simp: levels_loop.simps [of hpb db l] split: if_splits)
    from "1.IH" [OF True nz rec] have ih: "l + 1 \<le> L" "levels_stop hpb db L"
      "\<forall>L'. l + 1 \<le> L' \<and> L' < L \<longrightarrow> \<not> levels_stop hpb db L'" by auto
    from True have "\<not> levels_stop hpb db l" by (auto simp: levels_stop_def)
    with ih show ?thesis
      by (metis Suc_eq_plus1 Suc_leI le_neq_implies_less add_leD1)
  next
    case False
    with "1.prems" have "L = l" by (simp add: levels_loop.simps [of hpb db l])
    with False show ?thesis by (auto simp: levels_stop_def)
  qed
qed

lemma derive_levels_smallest:
  "db \<noteq> 0 \<Longrightarrow> derive_levels hpb db = Some L \<Longrightarrow> smallest_level hpb db L"
  using levels_loop_smallest [of hpb db 0 L]
  by (simp add: derive_levels_def smallest_level_def)


lemma fls_pos: "2 \<le> n \<Longrightarrow> 0 < fls n"
  by (subst fls.simps) simp

lemma levels_loop_returns: "0 < hpb \<Longrightarrow> levels_loop hpb db l \<noteq> None"
proof (induction hpb db l rule: levels_loop.induct)
  case (1 hpb db l)
  show ?case
  proof (cases "hpb * l < 64 \<and> drop_bit (hpb * l) (db - 1) \<noteq> 0")
    case True
    with "1.IH" "1.prems" show ?thesis
      by (subst levels_loop.simps) simp
  next
    case False
    then show ?thesis by (subst levels_loop.simps) auto
  qed
qed

lemma hash_level_loop_returns: "hash_level_loop hpb db n pos hlb \<noteq> Inl Never_returns"
  by (induction n arbitrary: pos hlb) (auto simp: Let_def)

lemma derive_levels_returns:
  assumes "\<not> 2 ^ hbb < ds * 2" and "0 < ds"
  shows "derive_levels (fls (2 ^ hbb div ds)) db \<noteq> None"
proof -
  from assms have "2 \<le> 2 ^ hbb div ds"
    by (simp add: less_eq_div_iff_mult_less_eq mult.commute)
  then have "0 < fls (2 ^ hbb div ds)" by (rule fls_pos)
  then have "levels_loop (fls (2 ^ hbb div ds)) db 0 \<noteq> None"
    by (rule levels_loop_returns)
  then show ?thesis
    by (auto simp: derive_levels_def)
qed

lemma verity_ctr_args_fields:
  assumes "verity_ctr_args e a = Inr v"
  shows "version v = arg_version a \<and>
         data_dev_block_bits v = ffs (arg_data_block_size a) \<and>
         hash_dev_block_bits v = ffs (arg_hash_block_size a) \<and>
         data_blocks v = arg_data_blocks a \<and>
         hash_start v = arg_hash_start a \<and>
         digest_size v = arg_digest_size a \<and>
         root_digest v = arg_root_digest a \<and>
         length (root_digest v) = digest_size v \<and>
         digest_size v \<noteq> 0 \<and>
         digest_size v * 2 \<le> 2 ^ hash_dev_block_bits v \<and>
         hash_per_block_bits v = fls (2 ^ hash_dev_block_bits v div digest_size v) \<and>
         hash_level_block v = replicate (DM_VERITY_MAX_LEVELS e) 0"
  using assms unfolding verity_ctr_args_def Let_def
  by (simp split: if_splits, auto)

lemma verity_ctr_argsD:
  assumes "verity_ctr_args e a = Inr v"
  shows "version v = arg_version a"
    and "data_dev_block_bits v = ffs (arg_data_block_size a)"
    and "hash_dev_block_bits v = ffs (arg_hash_block_size a)"
    and "data_blocks v = arg_data_blocks a"
    and "hash_start v = arg_hash_start a"
    and "digest_size v = arg_digest_size a"
    and "root_digest v = arg_root_digest a"
    and "length (root_digest v) = digest_size v"
    and "digest_size v \<noteq> 0"
    and "digest_size v * 2 \<le> 2 ^ hash_dev_block_bits v"
    and "hash_per_block_bits v = fls (2 ^ hash_dev_block_bits v div digest_size v)"
    and "hash_level_block v = replicate (DM_VERITY_MAX_LEVELS e) 0"
  using verity_ctr_args_fields [OF assms] by blast+

lemma ctr_args_levels_return:
  assumes "verity_ctr_args e a = Inr v"
  shows "derive_levels (hash_per_block_bits v) (data_blocks v) \<noteq> None"
proof -
  note d = verity_ctr_argsD [OF assms]
  from d(10) have "\<not> 2 ^ hash_dev_block_bits v < digest_size v * 2" by simp
  moreover from d(9) have "0 < digest_size v" by simp
  ultimately show ?thesis
    unfolding d(11) by (rule derive_levels_returns)
qed

text \<open>The constructor returns: its loop that derives \<open>levels\<close> always exits.\<close>

lemma verity_ctr_returns: "verity_ctr e a \<noteq> Inl Never_returns"
proof
  assume nr: "verity_ctr e a = Inl Never_returns"
  show False
  proof (cases "verity_ctr_args e a")
    case (Inl err)
    with nr have "verity_ctr_args e a = Inl Never_returns" by (simp add: verity_ctr_def)
    then show False
      unfolding verity_ctr_args_def Let_def by (simp split: if_splits)
  next
    case (Inr v)
    from ctr_args_levels_return [OF Inr] nr Inr show False
      by (auto simp: verity_ctr_def hash_level_loop_returns
            split: option.splits if_splits sum.splits prod.splits)
  qed
qed

lemma ffs_4096: "ffs 4096 = 12"
  by (simp add: ffs.simps)

lemma fls_128: "fls 128 = 7"
  by (simp add: fls.simps)

lemma derive_levels_4k: "derive_levels 7 1024 = Some 2"
  by (simp add: derive_levels_def levels_loop.simps)


lemma hash_level_loop_4k:
  "hash_level_loop 7 1024 2 hs hlb =
     (if hs + 1 < hs then Inl (Ctr_error (- E2BIG) ''Hash device offset overflow'')
      else if hs + 1 + 8 < hs + 1 then Inl (Ctr_error (- E2BIG) ''Hash device offset overflow'')
      else Inr (hs + 9, hlb[1 := hs, 0 := hs + 1]))"
proof -
  have two: "(2::nat) = Suc (Suc 0)" by simp
  have s1: "drop_bit 14 ((1024::64 word) + push_bit 14 1 - 1) = 1" by simp
  have s0: "drop_bit 7 ((1024::64 word) + push_bit 7 1 - 1) = 8" by simp
  have a9: "hs + 1 + 8 = hs + 9" by simp
  show ?thesis
    unfolding two by (simp add: Let_def s1 s0 a9)
qed

lemma verity_ctr_Inr_fields:
  assumes "verity_ctr e a = Inr v"
  shows "version v = arg_version a \<and>
         data_dev_block_bits v = ffs (arg_data_block_size a) \<and>
         hash_dev_block_bits v = ffs (arg_hash_block_size a) \<and>
         data_blocks v = arg_data_blocks a \<and>
         hash_start v = arg_hash_start a \<and>
         digest_size v = arg_digest_size a \<and>
         root_digest v = arg_root_digest a \<and>
         length (root_digest v) = digest_size v \<and>
         digest_size v \<noteq> 0 \<and>
         digest_size v * 2 \<le> 2 ^ hash_dev_block_bits v \<and>
         hash_per_block_bits v = fls (2 ^ hash_dev_block_bits v div digest_size v) \<and>
         derive_levels (hash_per_block_bits v) (data_blocks v) = Some (levels v) \<and>
         levels v \<le> DM_VERITY_MAX_LEVELS e \<and>
         hash_level_loop (hash_per_block_bits v) (data_blocks v) (levels v) (hash_start v)
           (replicate (DM_VERITY_MAX_LEVELS e) 0) = Inr (hash_blocks v, hash_level_block v) \<and>
         hash_blocks v \<le> hash_device_size e"
proof -
  from assms obtain v0 where v0: "verity_ctr_args e a = Inr v0"
    by (cases "verity_ctr_args e a") (simp_all add: verity_ctr_def)
  note d = verity_ctr_argsD [OF v0]
  from assms v0 obtain l pos hlb where
    l: "derive_levels (hash_per_block_bits v0) (data_blocks v0) = Some l"
    and mx: "l \<le> DM_VERITY_MAX_LEVELS e"
    and lay: "hash_level_loop (hash_per_block_bits v0) (data_blocks v0) l (hash_start v0)
                (hash_level_block v0) = Inr (pos, hlb)"
    and sz: "pos \<le> hash_device_size e"
    and v: "v = v0\<lparr>levels := l, hash_blocks := pos, hash_level_block := hlb\<rparr>"
    by (auto simp: verity_ctr_def split: option.splits if_splits sum.splits prod.splits)
  show ?thesis
    using d l mx lay sz by (simp add: v)
qed

lemma verity_ctr_InrD:
  assumes "verity_ctr e a = Inr v"
  shows "version v = arg_version a"
    and "data_dev_block_bits v = ffs (arg_data_block_size a)"
    and "hash_dev_block_bits v = ffs (arg_hash_block_size a)"
    and "data_blocks v = arg_data_blocks a"
    and "hash_start v = arg_hash_start a"
    and "digest_size v = arg_digest_size a"
    and "root_digest v = arg_root_digest a"
    and "length (root_digest v) = digest_size v"
    and "digest_size v \<noteq> 0"
    and "digest_size v * 2 \<le> 2 ^ hash_dev_block_bits v"
    and "hash_per_block_bits v = fls (2 ^ hash_dev_block_bits v div digest_size v)"
    and "derive_levels (hash_per_block_bits v) (data_blocks v) = Some (levels v)"
    and "levels v \<le> DM_VERITY_MAX_LEVELS e"
    and "hash_level_loop (hash_per_block_bits v) (data_blocks v) (levels v) (hash_start v)
           (replicate (DM_VERITY_MAX_LEVELS e) 0) = Inr (hash_blocks v, hash_level_block v)"
    and "hash_blocks v \<le> hash_device_size e"
  using verity_ctr_Inr_fields [OF assms] by blast+

lemma smallest_level_unique:
  "smallest_level hpb db L \<Longrightarrow> smallest_level hpb db L' \<Longrightarrow> L = L'"
  unfolding smallest_level_def by (metis linorder_neqE_nat)

lemma ctr_too_many_levels:
  assumes v0: "verity_ctr_args e a = Inr v0" and nz: "data_blocks v0 \<noteq> 0"
    and sm: "smallest_level (hash_per_block_bits v0) (data_blocks v0) L"
    and mx: "DM_VERITY_MAX_LEVELS e < L"
  shows "verity_ctr e a = Inl (Ctr_error (- E2BIG) ''Too many tree levels'')"
proof -
  from ctr_args_levels_return [OF v0] obtain l where
    l: "derive_levels (hash_per_block_bits v0) (data_blocks v0) = Some l" by auto
  from derive_levels_smallest [OF nz l] sm have "l = L" by (rule smallest_level_unique)
  with v0 l mx show ?thesis by (simp add: verity_ctr_def)
qed

lemma ctr_smallest_exists:
  assumes v0: "verity_ctr_args e a = Inr v0" and nz: "data_blocks v0 \<noteq> 0"
  shows "\<exists>L. smallest_level (hash_per_block_bits v0) (data_blocks v0) L"
proof -
  from ctr_args_levels_return [OF v0] obtain l where
    l: "derive_levels (hash_per_block_bits v0) (data_blocks v0) = Some l" by auto
  from derive_levels_smallest [OF nz l] show ?thesis ..
qed

lemma ctr_4k_geometry:
  assumes "verity_ctr e a = Inr v"
    and "arg_data_block_size a = 4096" and "arg_hash_block_size a = 4096"
    and "arg_digest_size a = 32" and "arg_data_blocks a = 1024"
  shows "hash_per_block_bits v = 7 \<and> levels v = 2 \<and>
         hash_level_block v ! 1 = hash_start v \<and>
         hash_level_block v ! 0 = hash_start v + 1 \<and>
         hash_blocks v = hash_start v + 9"
proof -
  note d = verity_ctr_InrD [OF assms(1)]
  have hbb: "hash_dev_block_bits v = 12" using d(3) assms(3) by (simp add: ffs_4096)
  have hpb: "hash_per_block_bits v = 7" using d(11) d(6) hbb assms(4) by (simp add: fls_128)
  have lv: "levels v = 2" using d(12) d(4) hpb assms(5) by (simp add: derive_levels_4k)
  have mx: "2 \<le> DM_VERITY_MAX_LEVELS e" using d(13) lv by simp
  have "hash_level_loop 7 1024 2 (hash_start v) (replicate (DM_VERITY_MAX_LEVELS e) 0)
          = Inr (hash_blocks v, hash_level_block v)"
    using d(14) hpb lv d(4) assms(5) by simp
  then have "hash_blocks v = hash_start v + 9"
    and "hash_level_block v = (replicate (DM_VERITY_MAX_LEVELS e) 0)[1 := hash_start v, 0 := hash_start v + 1]"
    by (auto simp: hash_level_loop_4k split: if_splits)
  with hpb lv mx show ?thesis by (simp add: nth_list_update)
qed


lemma ctr_4k_builds: "verity_ctr ctr_env_4k ctr_args_4k = Inr dm_verity_4k"
proof -
  have a: "(4096::nat) AND 4095 = 0" by simp
  have b: "\<not> (2 ^ 31 - 1 < (4096::nat))" by simp
  have c: "drop_bit 3 (push_bit 3 (1024::64 word)) = 1024" by simp
  have d: "drop_bit 3 (push_bit 3 (1::64 word)) = 1" by simp
  have e: "\<not> (push_bit 3 (1024::64 word) < 8192)" by simp
  have f: "(2::nat) ^ 12 div 32 = 128" by simp
  have g: "\<not> ((2::nat) ^ 12 < 32 * 2)" by simp
  have h: "\<not> ((1::64 word) + 1 < 1)" "\<not> ((1::64 word) + 1 + 8 < 1 + 1)"
    "\<not> ((16::64 word) < 1 + 9)" by simp_all
  show ?thesis
    by (simp add: verity_ctr_def verity_ctr_args_def ctr_env_4k_def ctr_args_4k_def
        dm_verity_4k_def Let_def
        ffs_4096 fls_128 derive_levels_4k hash_level_loop_4k SECTOR_SHIFT_def a b c d e f g h
        E2BIG_def EINVAL_def)
qed

text \<open>
  C1, as the code has it.  With 4096-byte data blocks, 4096-byte hash blocks, 32-byte
  digests and 1024 data blocks, a successful construction has \<open>hash_per_block_bits\<close> = 7
  and \<open>levels\<close> = 2; level 1, the top level, starts at \<open>hash_start\<close> and is one block
  long (1024 / 128 / 128 rounded up), so level 0 starts at \<open>hash_start + 1\<close>; its 8 blocks
  end the tree at \<open>hash_start + 9\<close>.
\<close>

theorem ctr_4k_layout:
  assumes "verity_ctr e a = Inr v"
    and "arg_data_block_size a = 4096" and "arg_hash_block_size a = 4096"
    and "arg_digest_size a = 32" and "arg_data_blocks a = 1024"
  shows "hash_per_block_bits v = 7 \<and> levels v = 2 \<and>
         hash_level_block v ! 1 = hash_start v \<and>
         hash_level_block v ! 0 = hash_start v + 1 \<and>
         hash_blocks v = hash_start v + 9"
  using assms by (rule ctr_4k_geometry)

theorem ctr_4k_layout_witness:
  "verity_ctr ctr_env_4k ctr_args_4k = Inr dm_verity_4k \<and>
   arg_data_block_size ctr_args_4k = 4096 \<and> arg_hash_block_size ctr_args_4k = 4096 \<and>
   arg_digest_size ctr_args_4k = 32 \<and> arg_data_blocks ctr_args_4k = 1024 \<and>
   levels dm_verity_4k = 2 \<and>
   hash_level_block dm_verity_4k ! 1 = hash_start dm_verity_4k \<and>
   hash_level_block dm_verity_4k ! 0 = hash_start dm_verity_4k + 1"
  using ctr_4k_layout [of ctr_env_4k ctr_args_4k dm_verity_4k] ctr_4k_builds
  by (simp add: ctr_args_4k_def)

text \<open>
  C1, as the claim states it, fails: in that geometry with \<open>hash_start\<close> = 1 the
  constructor puts level 0 at block 2, not at block \<open>hash_start + 8\<close> = 9.
\<close>

theorem ctr_4k_layout_counterexample:
  "verity_ctr ctr_env_4k ctr_args_4k = Inr dm_verity_4k \<and>
   \<not> (levels dm_verity_4k = 2 \<and>
      hash_level_block dm_verity_4k ! 1 = hash_start dm_verity_4k \<and>
      hash_level_block dm_verity_4k ! 0 = hash_start dm_verity_4k + 8)"
  by (simp add: ctr_4k_builds) (simp add: dm_verity_4k_def)

lemma ctr_deep_args:
  "verity_ctr_args ctr_env_4k ctr_args_deep =
     Inr \<lparr> version = 1, data_dev_block_bits = 9, hash_dev_block_bits = 9,
           hash_per_block_bits = 1, levels = 0, data_blocks = 9223372036854775809,
           hash_start = 1, hash_blocks = 0, hash_level_block = replicate 63 0,
           digest_size = 256, root_digest = replicate 256 0, salt = [],
           zero_digest = None, mode = DM_VERITY_MODE_EIO \<rparr>"
proof -
  have a: "(512::nat) AND 511 = 0" by simp
  have b: "\<not> (2 ^ 31 - 1 < (512::nat))" by simp
  have c: "ffs 512 = 9" by (simp add: ffs.simps)
  have d: "\<not> ((9223372036854775809::64 word) < 8192)" by simp
  have f: "(2::nat) ^ 9 div 256 = 2" "fls 2 = 1" by (simp_all add: fls.simps)
  have g: "\<not> ((2::nat) ^ 9 < 256 * 2)" by simp
  show ?thesis
    by (simp add: verity_ctr_args_def ctr_env_4k_def ctr_args_4k_def ctr_args_deep_def Let_def
        SECTOR_SHIFT_def a b c d f g EINVAL_def)
qed

lemma smallest_level_deep: "smallest_level 1 9223372036854775809 64"
proof -
  have e: "(9223372036854775809::64 word) - 1 = 2 ^ 63" by simp
  have "drop_bit L' ((2::64 word) ^ 63) \<noteq> 0" if "L' < 64" for L'
  proof -
    from that have "bit (drop_bit L' ((2::64 word) ^ 63)) (63 - L')"
      by (simp add: bit_drop_bit_eq bit_exp_iff)
    then show ?thesis by auto
  qed
  then show ?thesis
    by (auto simp: smallest_level_def levels_stop_def e)
qed

text \<open>
  C7.  A construction that succeeds for at least one data block has as \<open>levels\<close> the
  smallest \<open>L\<close> with \<open>hash_per_block_bits * L >= 64\<close> or
  \<open>(data_blocks - 1) >> (hash_per_block_bits * L) = 0\<close>, and that \<open>L\<close> is at most
  \<open>DM_VERITY_MAX_LEVELS\<close>.  Whenever the arguments pass the checks made before \<open>levels\<close> is
  derived, for at least one data block, that smallest \<open>L\<close> exists, and if it exceeds
  \<open>DM_VERITY_MAX_LEVELS\<close> the construction fails with \<open>-E2BIG\<close>, "Too many tree levels".
\<close>

theorem ctr_levels_smallest:
  "(verity_ctr e a = Inr v \<and> data_blocks v \<noteq> 0 \<longrightarrow>
      smallest_level (hash_per_block_bits v) (data_blocks v) (levels v) \<and>
      levels v \<le> DM_VERITY_MAX_LEVELS e) \<and>
   (verity_ctr_args e a = Inr v0 \<and> data_blocks v0 \<noteq> 0 \<longrightarrow>
      (\<exists>L. smallest_level (hash_per_block_bits v0) (data_blocks v0) L)) \<and>
   (verity_ctr_args e a = Inr v0 \<and> data_blocks v0 \<noteq> 0 \<and>
    smallest_level (hash_per_block_bits v0) (data_blocks v0) L \<and>
    DM_VERITY_MAX_LEVELS e < L \<longrightarrow>
      verity_ctr e a = Inl (Ctr_error (- E2BIG) ''Too many tree levels''))"
  using verity_ctr_InrD(12,13) [where e = e and a = a and v = v] derive_levels_smallest
    ctr_too_many_levels [where e = e and a = a and ?v0.0 = v0 and L = L]
    ctr_smallest_exists [where e = e and a = a and ?v0.0 = v0]
  by blast

theorem ctr_levels_smallest_witness:
  "verity_ctr ctr_env_4k ctr_args_4k = Inr dm_verity_4k \<and> data_blocks dm_verity_4k \<noteq> 0 \<and>
   smallest_level 7 1024 2 \<and>
   DM_VERITY_MAX_LEVELS ctr_env_4k = 63 \<and>
   verity_ctr_args ctr_env_4k ctr_args_deep =
     Inr \<lparr> version = 1, data_dev_block_bits = 9, hash_dev_block_bits = 9,
           hash_per_block_bits = 1, levels = 0, data_blocks = 9223372036854775809,
           hash_start = 1, hash_blocks = 0, hash_level_block = replicate 63 0,
           digest_size = 256, root_digest = replicate 256 0, salt = [],
           zero_digest = None, mode = DM_VERITY_MODE_EIO \<rparr> \<and>
   smallest_level 1 9223372036854775809 64 \<and>
   verity_ctr ctr_env_4k ctr_args_deep = Inl (Ctr_error (- E2BIG) ''Too many tree levels'')"
proof -
  define v0 where "v0 = \<lparr> version = 1, data_dev_block_bits = 9, hash_dev_block_bits = 9,
           hash_per_block_bits = 1, levels = 0, data_blocks = (9223372036854775809 :: sector_t),
           hash_start = 1, hash_blocks = 0, hash_level_block = replicate 63 0,
           digest_size = 256, root_digest = replicate 256 0, salt = [],
           zero_digest = None, mode = DM_VERITY_MODE_EIO \<rparr>"
  have f: "data_blocks dm_verity_4k = 1024" "hash_per_block_bits dm_verity_4k = 7"
    "levels dm_verity_4k = 2" by (simp_all add: dm_verity_4k_def)
  have g: "verity_ctr_args ctr_env_4k ctr_args_deep = Inr v0"
    "data_blocks v0 = 9223372036854775809" "hash_per_block_bits v0 = 1"
    by (simp_all add: ctr_deep_args v0_def)
  have h: "DM_VERITY_MAX_LEVELS ctr_env_4k = 63" by (simp add: ctr_env_4k_def)
  from ctr_levels_smallest [where e = ctr_env_4k and a = ctr_args_4k and v = dm_verity_4k]
    ctr_4k_builds f
  have a: "smallest_level 7 1024 2" by simp
  from ctr_levels_smallest [where e = ctr_env_4k and a = ctr_args_deep and ?v0.0 = v0 and L = 64]
    g h smallest_level_deep
  have b: "verity_ctr ctr_env_4k ctr_args_deep = Inl (Ctr_error (- E2BIG) ''Too many tree levels'')"
    by simp
  from a b f h ctr_4k_builds smallest_level_deep ctr_deep_args show ?thesis by simp
qed

subsection \<open>Level verifier\<close>

lemma handle_err_frame:
  assumes "verity_handle_err e v s ty blk = (h, s')"
  shows "bufio s' = bufio s \<and> bio_data s' = bio_data s \<and> iter s' = iter s \<and>
         desc s' = desc s \<and> real_digest s' = real_digest s \<and> want_digest s' = want_digest s \<and>
         corrupted_errs s \<le> corrupted_errs s' \<and>
         trace s' = trace s @ (if corrupted_errs s < DM_VERITY_MAX_CORRUPTED_ERRS
                               then [Handle_err ty blk, Uevent (verity_env_text ty blk)] else [Handle_err ty blk])"
  using assms
  by (auto simp: verity_handle_err_def Let_def verity_write_nv_def split: if_splits prod.splits)

lemma handle_err_rc_cong:
  assumes "corrupted_errs s = corrupted_errs t" "verify_failed_flag s = verify_failed_flag t"
    "nv_vmode s = nv_vmode t"
  shows "fst (verity_handle_err e v s ty blk) = fst (verity_handle_err e v t ty blk')"
  using assms
  by (simp add: verity_handle_err_def Let_def verity_write_nv_def verity_read_nv_def split: prod.splits)

lemma hash_sel_sha_tfmD:
  "verity_hash_sel_sha e v d data len digest count = (r, d', rd) \<Longrightarrow>
     tfm d' = (if count \<noteq> 0 then TFM_SHA256 else TFM_SHA2CE)"
  using hash_sel_sha_tfm [of e v d data len digest count] by simp

lemma LABEL_retry_props:
  assumes "verity_verify_level_LABEL e v hb want (Suc n) buf s = (res, buf', s')"
  shows "bio_data s' = bio_data s \<and> iter s' = iter s \<and> want_digest s' = want_digest s \<and>
         corrupted_errs s \<le> corrupted_errs s' \<and>
         ((bufio s' = bufio s \<and> buf' = buf) \<or>
          (bufio s' = (bufio s)(hb \<mapsto> buf') \<and> hash_verified buf' = 1 \<and> res = None \<and>
           (memcmp_eq (real_digest s') want (digest_size v) \<or>
            fst (verity_fec_decode_metadata e hb (buf_data buf)) = 0))) \<and>
         (\<exists>evs. trace s' = trace s @ evs \<and>
            filter is_attempt evs \<in>
              {[Hash_attempt DM_VERITY_BLOCK_TYPE_METADATA hb TFM_SHA256],
               [Hash_attempt DM_VERITY_BLOCK_TYPE_METADATA hb TFM_SHA256,
                Fec_decode DM_VERITY_BLOCK_TYPE_METADATA hb],
               [Hash_attempt DM_VERITY_BLOCK_TYPE_METADATA hb TFM_SHA256,
                Fec_decode DM_VERITY_BLOCK_TYPE_METADATA hb,
                Handle_err DM_VERITY_BLOCK_TYPE_METADATA hb]} \<and>
            (\<forall>ev \<in> set evs. meta_event hb ev))"
  using assms
  apply (subst (asm) verity_verify_level_LABEL.simps)
  apply (simp add: Let_def split: prod.splits if_splits)
  apply (auto simp: meta_event_def dest!: handle_err_frame hash_sel_sha_tfmD)
  done

lemma LABEL_first_props:
  assumes "verity_verify_level_LABEL e v hb want 0 buf s = (res, buf', s')"
  shows "bio_data s' = bio_data s \<and> iter s' = iter s \<and> want_digest s' = want_digest s \<and>
         corrupted_errs s \<le> corrupted_errs s' \<and>
         ((bufio s' = bufio s \<and> buf' = buf) \<or>
          (bufio s' = (bufio s)(hb \<mapsto> buf') \<and> hash_verified buf' = 1 \<and> res = None \<and>
           (memcmp_eq (real_digest s') want (digest_size v) \<or>
            fst (verity_fec_decode_metadata e hb (buf_data buf)) = 0))) \<and>
         (\<exists>evs. trace s' = trace s @ evs \<and>
            prefix (filter is_attempt evs) (fallback_sequence DM_VERITY_BLOCK_TYPE_METADATA hb) \<and>
            (\<forall>ev \<in> set evs. meta_event hb ev) \<and>
            (Hash_attempt DM_VERITY_BLOCK_TYPE_METADATA hb TFM_SHA256 \<in> set evs \<longrightarrow>
               \<not> memcmp_eq (snd (snd (verity_hash_sel_sha e v (desc s) (buf_data buf)
                     (2 ^ hash_dev_block_bits v) (real_digest s) 0))) want (digest_size v)))"
  using assms
  apply (subst (asm) verity_verify_level_LABEL.simps)
  apply (simp add: Let_def split: prod.splits if_splits)
    apply (auto simp: meta_event_def fallback_sequence_def dest!: LABEL_retry_props hash_sel_sha_tfmD)
  done

lemma flags_mono_same: "bufio s' = bufio s \<Longrightarrow> flags_mono s s'"
  by (auto simp: flags_mono_def split: option.splits)

lemma flags_mono_trans: "flags_mono s t \<Longrightarrow> flags_mono t u \<Longrightarrow> flags_mono s u"
  unfolding flags_mono_def
  apply (intro allI)
  subgoal for blk
    apply (drule spec [of _ blk])+
    apply (auto split: option.splits)
    done
  done

lemma flags_mono_verified:
  "bufio s' = (bufio s)(hb \<mapsto> b) \<Longrightarrow> hash_verified b = 1 \<Longrightarrow> flags_mono s s'"
  by (auto simp: flags_mono_def split: option.splits)

lemma flags_mono_alloc:
  "bufio s hb = None \<Longrightarrow> bufio s' = (bufio s)(hb \<mapsto> b) \<Longrightarrow> hash_verified b = 0 \<Longrightarrow>
     flags_mono s s'"
  by (auto simp: flags_mono_def split: option.splits)

lemma bufio_read_props:
  assumes "dm_bufio_read e s blk = (rd, s1)"
  shows "trace s1 = trace s @ [Bufio_read blk] \<and> bio_data s1 = bio_data s \<and> iter s1 = iter s \<and>
         want_digest s1 = want_digest s \<and> corrupted_errs s1 = corrupted_errs s \<and>
         desc s1 = desc s \<and> real_digest s1 = real_digest s \<and>
         verify_failed_flag s1 = verify_failed_flag s \<and> nv_vmode s1 = nv_vmode s \<and>
         flags_mono s s1 \<and>
         (\<forall>buf. rd = Inr buf \<longrightarrow> bufio s1 blk = Some buf) \<and>
         (\<forall>err. rd = Inl err \<longrightarrow> bufio s1 = bufio s) \<and>
         (\<forall>buf. rd = Inr buf \<longrightarrow>
            bufio s1 = bufio s \<or>
            (bufio s blk = None \<and> bufio s1 = (bufio s)(blk \<mapsto> buf) \<and> hash_verified buf = 0))"
  using assms
  by (auto simp: dm_bufio_read_def Let_def dm_bufio_alloc_callback_def
        intro: flags_mono_same flags_mono_alloc split: option.splits sum.splits)

lemma release_simps [simp]:
  "trace (dm_bufio_release s blk) = trace s @ [Bufio_release blk]"
  "bufio (dm_bufio_release s blk) = bufio s"
  "bio_data (dm_bufio_release s blk) = bio_data s"
  "iter (dm_bufio_release s blk) = iter s"
  "want_digest (dm_bufio_release s blk) = want_digest s"
  "corrupted_errs (dm_bufio_release s blk) = corrupted_errs s"
  by (simp_all add: dm_bufio_release_def)

lemma flags_mono_release [simp]: "flags_mono s (dm_bufio_release t blk) = flags_mono s t"
  by (simp add: flags_mono_def cong: option.case_cong)

lemma LABEL_flags_mono:
  assumes "verity_verify_level_LABEL e v hb want 0 buf s = (res, buf', s')"
  shows "flags_mono s s'"
  using LABEL_first_props [OF assms] by (auto intro: flags_mono_same flags_mono_verified)

lemma not_concerns_meta: "meta_event hb ev \<Longrightarrow> \<not> concerns DM_VERITY_BLOCK_TYPE_DATA b ev"
  by (auto simp: meta_event_def)

lemma verify_level_props:
  assumes "verity_verify_level e v s block level skip want = (r, want', s')"
  shows "bio_data s' = bio_data s \<and> iter s' = iter s \<and> want_digest s' = want_digest s \<and>
         corrupted_errs s \<le> corrupted_errs s' \<and> flags_mono s s' \<and>
         (\<exists>evs. trace s' = trace s @ evs \<and>
            prefix (filter is_attempt evs)
              (fallback_sequence DM_VERITY_BLOCK_TYPE_METADATA (fst (verity_hash_at_level v block level))) \<and>
            (\<forall>ev \<in> set evs. \<forall>b. \<not> concerns DM_VERITY_BLOCK_TYPE_DATA b ev))"
proof -
  obtain hb off where hal: "verity_hash_at_level v block level = (hb, off)" by force
  obtain rd s1 where rdq: "dm_bufio_read e s hb = (rd, s1)" by force
  note rp = bufio_read_props [OF rdq]
  show ?thesis
  proof (cases rd)
    case (Inl err)
    with assms hal rdq have "s' = s1" by (simp add: verity_verify_level_def)
    with rp show ?thesis by (simp add: hal)
  next
    case (Inr buf)
    show ?thesis
    proof (cases "hash_verified buf = 0 \<and> \<not> skip")
      case False
      with assms hal rdq Inr have "s' = dm_bufio_release s1 hb"
        by (auto simp: verity_verify_level_def split: if_splits)
      with rp show ?thesis by (simp add: hal)
    next
      case True
      obtain res buf' s2 where lab: "verity_verify_level_LABEL e v hb want 0 buf s1 = (res, buf', s2)"
        by (metis prod_cases3)
      from assms hal rdq Inr True lab have s': "s' = dm_bufio_release s2 hb"
        by (auto simp: verity_verify_level_def split: option.splits)
      from LABEL_first_props [OF lab] obtain evs where
        fr: "bio_data s2 = bio_data s1" "iter s2 = iter s1" "want_digest s2 = want_digest s1"
          "corrupted_errs s1 \<le> corrupted_errs s2"
        and ev: "trace s2 = trace s1 @ evs"
          "prefix (filter is_attempt evs) (fallback_sequence DM_VERITY_BLOCK_TYPE_METADATA hb)"
          "\<forall>ev \<in> set evs. meta_event hb ev"
        by blast
      have fm: "flags_mono s s2"
        using rp LABEL_flags_mono [OF lab] by (blast intro: flags_mono_trans)
      have "trace s' = trace s @ (Bufio_read hb # evs @ [Bufio_release hb])"
        using s' ev(1) rp by simp
      moreover have "filter is_attempt (Bufio_read hb # evs @ [Bufio_release hb]) = filter is_attempt evs"
        by simp
      moreover have "\<forall>ev \<in> set (Bufio_read hb # evs @ [Bufio_release hb]). \<forall>b.
                       \<not> concerns DM_VERITY_BLOCK_TYPE_DATA b ev"
        using ev(3) by (auto dest: not_concerns_meta)
      ultimately show ?thesis
        using fr rp fm s' ev(2) by (auto simp: hal simp del: filter.simps filter_append)
    qed
  qed
qed

lemma flags_mono_keeps:
  "flags_mono s t \<Longrightarrow> bufio s blk = Some b \<Longrightarrow> hash_verified b = 1 \<Longrightarrow>
     \<exists>b'. bufio t blk = Some b' \<and> hash_verified b' = 1"
  unfolding flags_mono_def
  by (drule spec [of _ blk]) (auto split: option.splits)

text \<open>
  C4.  When the metadata buffer is not yet verified, both digest computations succeed and
  mismatch the wanted digest, the repair fails and \<open>verity_handle_err\<close> returns 0,
  \<open>verity_verify_level\<close> returns 0 with the digest stored at the offset copied into
  \<open>want_digest\<close>; the buffer keeps \<open>hash_verified\<close> = 0, the attempts made are exactly the
  fixed sequence, and a later call that skips unverified buffers returns 1.
\<close>

theorem verify_level_policy_continue:
  assumes hal: "verity_hash_at_level v block level = (hb, off)"
    and rd: "dm_bufio_read e s hb = (Inr buf, s1)"
    and unv: "hash_verified buf = 0"
    and h0: "verity_hash_sel_sha e v (desc s) (buf_data buf) (2 ^ hash_dev_block_bits v)
               (real_digest s) 0 = (r0, d0, rd0)"
      "0 \<le> r0" "\<not> memcmp_eq rd0 want (digest_size v)"
    and h1: "verity_hash_sel_sha e v d0 (buf_data buf) (2 ^ hash_dev_block_bits v) rd0 1
               = (r1, d1, rd1)"
      "0 \<le> r1" "\<not> memcmp_eq rd1 want (digest_size v)"
    and fec: "fst (verity_fec_decode_metadata e hb (buf_data buf)) \<noteq> 0"
    and pol: "fst (verity_handle_err e v s DM_VERITY_BLOCK_TYPE_METADATA hb) = 0"
  shows "\<exists>s'. verity_verify_level e v s block level False want =
                (0, memcpy want (drop off (buf_data buf)) (digest_size v), s') \<and>
              bufio s' hb = Some buf \<and>
              filter is_attempt (new_events s s') = fallback_sequence DM_VERITY_BLOCK_TYPE_METADATA hb \<and>
              fst (verity_verify_level e v s' block level True w) = 1"
proof -
  note rp = bufio_read_props [OF rd]
  define s1a where "s1a = s1\<lparr>desc := d0, real_digest := rd0,
      trace := trace s1 @ [Hash_attempt DM_VERITY_BLOCK_TYPE_METADATA hb (tfm d0)]\<rparr>"
  define s1b where "s1b = s1a\<lparr>desc := d1, real_digest := rd1,
      trace := trace s1a @ [Hash_attempt DM_VERITY_BLOCK_TYPE_METADATA hb (tfm d1)]\<rparr>"
  define s2 where "s2 = s1b\<lparr>trace := trace s1b @ [Fec_decode DM_VERITY_BLOCK_TYPE_METADATA hb]\<rparr>"
  obtain h s3 where he: "verity_handle_err e v s2 DM_VERITY_BLOCK_TYPE_METADATA hb = (h, s3)"
    by force
  have "fst (verity_handle_err e v s2 DM_VERITY_BLOCK_TYPE_METADATA hb)
          = fst (verity_handle_err e v s DM_VERITY_BLOCK_TYPE_METADATA hb)"
    by (rule handle_err_rc_cong) (simp_all add: s2_def s1b_def s1a_def rp)
  with he pol have h: "h = 0" by simp
  note hf = handle_err_frame [OF he]
  have t0: "tfm d0 = TFM_SHA2CE" using hash_sel_sha_tfmD [OF h0(1)] by simp
  have t1: "tfm d1 = TFM_SHA256" using hash_sel_sha_tfmD [OF h1(1)] by simp
  have lab1: "verity_verify_level_LABEL e v hb want (Suc 0) buf s1a = (None, buf, s3)"
    apply (subst verity_verify_level_LABEL.simps)
    using h1 fec he h
    by (auto simp: s1a_def s1b_def s2_def Let_def split: prod.splits)
  have lab0: "verity_verify_level_LABEL e v hb want 0 buf s1 = (None, buf, s3)"
    apply (subst verity_verify_level_LABEL.simps)
    using h0 lab1 rp
    by (simp add: s1a_def Let_def)
  define s' where "s' = dm_bufio_release s3 hb"
  have res: "verity_verify_level e v s block level False want =
               (0, memcpy want (drop off (buf_data buf)) (digest_size v), s')"
    using hal rd unv lab0 by (simp add: verity_verify_level_def s'_def)
  have bf: "bufio s' hb = Some buf"
    using hf rp by (simp add: s'_def s2_def s1b_def s1a_def)
  have tr: "trace s' = trace s @ [Bufio_read hb,
              Hash_attempt DM_VERITY_BLOCK_TYPE_METADATA hb TFM_SHA2CE,
              Hash_attempt DM_VERITY_BLOCK_TYPE_METADATA hb TFM_SHA256,
              Fec_decode DM_VERITY_BLOCK_TYPE_METADATA hb] @
              (if corrupted_errs s < DM_VERITY_MAX_CORRUPTED_ERRS
               then [Handle_err DM_VERITY_BLOCK_TYPE_METADATA hb,
                     Uevent (verity_env_text DM_VERITY_BLOCK_TYPE_METADATA hb)]
               else [Handle_err DM_VERITY_BLOCK_TYPE_METADATA hb]) @ [Bufio_release hb]"
    using hf rp t0 t1 by (simp add: s'_def s2_def s1b_def s1a_def)
  have at: "filter is_attempt (new_events s s') = fallback_sequence DM_VERITY_BLOCK_TYPE_METADATA hb"
    by (simp add: new_events_def tr fallback_sequence_def)
  have again: "fst (verity_verify_level e v s' block level True w) = 1"
    using hal bf unv by (simp add: verity_verify_level_def dm_bufio_read_def Let_def)
  from res bf at again show ?thesis by blast
qed

theorem verify_level_policy_continue_witness:
  "fst (verity_verify_level toy_env toy_verity toy_state 0 0 False [0, 0]) = 0 \<and>
   fst (snd (verity_verify_level toy_env toy_verity toy_state 0 0 False [0, 0])) = [3, 4] \<and>
   bufio (snd (snd (verity_verify_level toy_env toy_verity toy_state 0 0 False [0, 0]))) 1
     = Some \<lparr>buf_data = [3, 4, 7, 4], hash_verified = 0\<rparr>"
proof -
  define buf where "buf = \<lparr>buf_data = [3, 4, 7, 4], hash_verified = (0::int)\<rparr>"
  define s1 where "s1 = toy_state\<lparr>trace := [Bufio_read 1], bufio := [1 \<mapsto> buf]\<rparr>"
  define d0 where "d0 = \<lparr>tfm = TFM_SHA2CE, buffered = [3, 4, 7, 4::8 word]\<rparr>"
  define d1 where "d1 = \<lparr>tfm = TFM_SHA256, buffered = [3, 4, 7, 4::8 word]\<rparr>"
  have hal: "verity_hash_at_level toy_verity 0 0 = (1, 0)"
    by (simp add: verity_hash_at_level_def verity_position_at_level_def toy_verity_def Let_def)
  have rd: "dm_bufio_read toy_env toy_state 1 = (Inr buf, s1)"
    by (simp add: dm_bufio_read_def toy_env_def toy_state_def Let_def dm_bufio_alloc_callback_def
          buf_def s1_def)
  have unv: "hash_verified buf = 0" by (simp add: buf_def)
  have h0: "verity_hash_sel_sha toy_env toy_verity (desc toy_state) (buf_data buf)
              (2 ^ hash_dev_block_bits toy_verity) (real_digest toy_state) 0 = (0, d0, [18, 4])"
    by (simp add: toy_env_def toy_verity_def toy_state_def toy_tfm_def toy_digest_def deref_tfm_def
          verity_hash_sel_sha_def verity_hash_init_def verity_hash_update_def
          verity_hash_final_def crypto_shash_init_def crypto_shash_update_def
          crypto_shash_final_def Let_def buf_def d0_def)
  have h1: "verity_hash_sel_sha toy_env toy_verity d0 (buf_data buf)
              (2 ^ hash_dev_block_bits toy_verity) [18, 4] 1 = (0, d1, [18, 4])"
    by (simp add: toy_env_def toy_verity_def toy_tfm_def toy_digest_def deref_tfm_def
          verity_hash_sel_sha_def verity_hash_init_def verity_hash_update_def
          verity_hash_final_def crypto_shash_init_def crypto_shash_update_def
          crypto_shash_final_def Let_def buf_def d0_def d1_def)
  have mm: "\<not> memcmp_eq [18, 4] [0, 0] (digest_size toy_verity)"
    by (simp add: memcmp_eq_def toy_verity_def)
  have fec: "fst (verity_fec_decode_metadata toy_env 1 (buf_data buf)) \<noteq> 0"
    by (simp add: toy_env_def)
  have pol: "fst (verity_handle_err toy_env toy_verity toy_state DM_VERITY_BLOCK_TYPE_METADATA 1) = 0"
    by (simp add: handle_err_below toy_state_def toy_verity_def DM_VERITY_MAX_CORRUPTED_ERRS_def)
  have cp: "memcpy [0, 0] (drop 0 (buf_data buf)) (digest_size toy_verity) = [3, 4]"
    by (simp add: memcpy_def buf_def toy_verity_def)
  from verify_level_policy_continue [where w = "[0, 0]", OF hal rd unv h0 _ mm h1 _ mm fec pol] cp
  show ?thesis by (auto simp: buf_def)
qed

subsection \<open>Expected digest of a data block\<close>

lemma hash_for_block_loop_props:
  "verity_hash_for_block_loop e v block n r digest s = (r', digest', s') \<Longrightarrow>
     bio_data s' = bio_data s \<and> iter s' = iter s \<and> want_digest s' = want_digest s \<and>
     corrupted_errs s \<le> corrupted_errs s' \<and> flags_mono s s' \<and>
     (\<exists>evs. trace s' = trace s @ evs \<and>
        (\<forall>ev \<in> set evs. \<forall>b. \<not> concerns DM_VERITY_BLOCK_TYPE_DATA b ev))"
proof (induction n arbitrary: r digest s)
  case 0
  then show ?case by (auto intro: flags_mono_same)
next
  case (Suc i)
  obtain r1 d1 s1 where vl: "verity_verify_level e v s block i False digest = (r1, d1, s1)"
    by (metis prod_cases3)
  note p1 = verify_level_props [OF vl]
  show ?case
  proof (cases "r1 \<noteq> 0")
    case True
    with Suc.prems vl have "s' = s1" by simp
    with p1 show ?thesis by blast
  next
    case False
    with Suc.prems vl have "verity_hash_for_block_loop e v block i r1 d1 s1 = (r', digest', s')"
      by simp
    from Suc.IH [OF this] p1 show ?thesis
      by (auto intro: flags_mono_trans)
  qed
qed

lemma hash_for_block_props:
  assumes "verity_hash_for_block e v s block digest = (r, digest', is_zero, s')"
  shows "bio_data s' = bio_data s \<and> iter s' = iter s \<and> want_digest s' = want_digest s \<and>
         corrupted_errs s \<le> corrupted_errs s' \<and> flags_mono s s' \<and>
         (\<exists>evs. trace s' = trace s @ evs \<and>
            (\<forall>ev \<in> set evs. \<forall>b. \<not> concerns DM_VERITY_BLOCK_TYPE_DATA b ev))"
proof (cases "levels v \<noteq> 0")
  case False
  with assms have "s' = s" by (simp add: verity_hash_for_block_def Let_def)
  then show ?thesis by (auto intro: flags_mono_same)
next
  case True
  obtain r1 d1 s1 where vl: "verity_verify_level e v s block 0 True digest = (r1, d1, s1)"
    by (metis prod_cases3)
  note p1 = verify_level_props [OF vl]
  show ?thesis
  proof (cases "r1 \<le> 0")
    case le: True
    with assms True vl have "s' = s1" by (simp add: verity_hash_for_block_def Let_def)
    with p1 show ?thesis by blast
  next
    case gt: False
    obtain r2 d2 s2 where lp: "verity_hash_for_block_loop e v block (levels v) r1
        (memcpy d1 (root_digest v) (digest_size v)) s1 = (r2, d2, s2)"
      by (metis prod_cases3)
    with assms True vl gt have "s' = s2" by (simp add: verity_hash_for_block_def Let_def)
    with hash_for_block_loop_props [OF lp] p1 show ?thesis
      by (auto intro: flags_mono_trans)
  qed
qed

lemma hash_for_block_no_levels:
  "levels v = 0 \<Longrightarrow>
     verity_hash_for_block e v s block digest =
       (0, memcpy digest (root_digest v) (digest_size v),
        (case zero_digest v of None \<Rightarrow> False
         | Some z \<Rightarrow> memcmp_eq z (memcpy digest (root_digest v) (digest_size v)) (digest_size v)),
        s)"
  by (simp add: verity_hash_for_block_def Let_def)


lemma same_tree_state_refl: "same_tree_state s s"
  by (simp add: same_tree_state_def)









subsection \<open>Walking the segments of a request\<close>

lemma hash_init_tfm:
  "verity_hash_init e v d count = (r, d') \<Longrightarrow>
     tfm d' = (if count \<noteq> 0 then TFM_SHA256 else TFM_SHA2CE)"
  by (auto simp: verity_hash_init_def crypto_shash_init_def crypto_shash_update_def Let_def
        split: if_splits prod.splits)

lemma only_io_changed_refl: "only_io_changed s s"
  by (simp add: only_io_changed_def)

lemma only_io_changed_trans:
  "only_io_changed s t \<Longrightarrow> only_io_changed t u \<Longrightarrow> only_io_changed s u"
  unfolding only_io_changed_def
  by (cases s, cases t, cases u) simp

lemma only_io_changedD:
  assumes "only_io_changed s s'"
  shows "trace s' = trace s" "bufio s' = bufio s" "want_digest s' = want_digest s"
    "real_digest s' = real_digest s" "iter s' = iter s" "corrupted_errs s' = corrupted_errs s"
    "hash_failed s' = hash_failed s" "verify_failed_flag s' = verify_failed_flag s"
    "nv_vmode s' = nv_vmode s"
  using assms unfolding only_io_changed_def
  by (cases s, cases s', simp)+

lemma for_bv_block_frame:
  "(\<And>s d r s1 d'. process s d = (r, s1, d') \<Longrightarrow> only_io_changed s s1) \<Longrightarrow>
   verity_for_bv_block process todo it s = Some (r, it', s') \<Longrightarrow> only_io_changed s s'"
proof (induction process todo it s rule: verity_for_bv_block.induct)
  case (1 process todo it s)
  define bv where "bv = bio_iter_iovec (bio_data s) it"
  define len where "len = (if todo \<le> length bv then todo else length bv)"
  obtain r1 s1 d' where pr: "process s (take len bv) = (r1, s1, d')" by (metis prod_cases3)
  define s2 where "s2 = s1\<lparr>bio_data := bio_store (bio_data s1) it d'\<rparr>"
  have a: "only_io_changed s s2"
    using "1.prems"(1) [OF pr] unfolding only_io_changed_def s2_def by (cases s, cases s1) simp
  show ?case
  proof (cases "r1 < 0 \<or> todo - len = 0")
    case True
    with "1.prems"(2) pr have "s' = s2"
      by (subst (asm) verity_for_bv_block.simps)
        (auto simp: Let_def bv_def [symmetric] len_def [symmetric] s2_def split: if_splits)
    with a show ?thesis by simp
  next
    case False
    with "1.prems"(2) pr have ln: "len \<noteq> 0"
      and rec: "verity_for_bv_block process (todo - len) (bio_advance_iter (bio_data s2) it len) s2
                  = Some (r, it', s')"
      by (subst (asm) verity_for_bv_block.simps,
          auto simp: Let_def bv_def [symmetric] len_def [symmetric] s2_def split: if_splits)+
    have "only_io_changed s2 s'"
      by (rule "1.IH" [OF bv_def len_def pr [symmetric] refl refl s2_def _ refl refl _ ln _ rec])
        (use False "1.prems"(1) in auto)
    with a show ?thesis by (rule only_io_changed_trans)
  qed
qed

lemma bv_hash_update_frame:
  "verity_bv_hash_update e v s d = (r, s1, d') \<Longrightarrow> only_io_changed s s1"
  unfolding only_io_changed_def verity_bv_hash_update_def
  by (cases s) (auto simp: Let_def split: prod.splits)

lemma bv_zero_frame: "verity_bv_zero s d = (r, s1, d') \<Longrightarrow> only_io_changed s s1"
  by (auto simp: verity_bv_zero_def only_io_changed_def)

lemma hash_walk_frame:
  "verity_for_bv_block (verity_bv_hash_update e v) todo it s = Some (r, it', s') \<Longrightarrow>
     only_io_changed s s'"
  by (rule for_bv_block_frame [where process = "verity_bv_hash_update e v"])
    (auto dest: bv_hash_update_frame)

lemma zero_walk_frame:
  "verity_for_bv_block verity_bv_zero todo it s = Some (r, it', s') \<Longrightarrow> only_io_changed s s'"
  by (rule for_bv_block_frame [where process = verity_bv_zero]) (auto dest: bv_zero_frame)

lemma filter_concerns_meta:
  "\<forall>ev \<in> set evs. \<forall>b. \<not> concerns DM_VERITY_BLOCK_TYPE_DATA b ev \<Longrightarrow>
     filter (concerns DM_VERITY_BLOCK_TYPE_DATA blk) evs = []"
  by (simp add: filter_empty_conv)

lemma hash_walk_facts:
  "verity_for_bv_block (verity_bv_hash_update e v) todo it s = Some (r, it', s') \<Longrightarrow>
     trace s' = trace s \<and> bufio s' = bufio s \<and> want_digest s' = want_digest s \<and>
     real_digest s' = real_digest s \<and> iter s' = iter s"
  by (drule hash_walk_frame) (simp add: only_io_changedD)

lemma zero_walk_facts:
  "verity_for_bv_block verity_bv_zero todo it s = Some (r, it', s') \<Longrightarrow>
     trace s' = trace s \<and> bufio s' = bufio s \<and> want_digest s' = want_digest s \<and>
     real_digest s' = real_digest s \<and> iter s' = iter s"
  by (drule zero_walk_frame) (simp add: only_io_changedD)

lemma flags_mono_bufio: "flags_mono s t \<Longrightarrow> bufio u = bufio t \<Longrightarrow> flags_mono s u"
  by (simp add: flags_mono_def cong: option.case_cong)

lemma io_LABEL_retry_props:
  assumes "verity_verify_io_LABEL e v blk (Suc n) sr s = Some (res, s')"
  shows "flags_mono s s' \<and>
         (\<exists>evs. trace s' = trace s @ evs \<and>
            filter (concerns DM_VERITY_BLOCK_TYPE_DATA blk) evs \<in>
              {[], [Hash_attempt DM_VERITY_BLOCK_TYPE_DATA blk TFM_SHA256],
               [Hash_attempt DM_VERITY_BLOCK_TYPE_DATA blk TFM_SHA256,
                Fec_decode DM_VERITY_BLOCK_TYPE_DATA blk],
               [Hash_attempt DM_VERITY_BLOCK_TYPE_DATA blk TFM_SHA256,
                Fec_decode DM_VERITY_BLOCK_TYPE_DATA blk,
                Handle_err DM_VERITY_BLOCK_TYPE_DATA blk]})"
proof -
  obtain r0 dg z s0 where hfb: "verity_hash_for_block e v s blk (want_digest s) = (r0, dg, z, s0)"
    by (metis prod_cases4)
  from hash_for_block_props [OF hfb] obtain evs0 where
    fm0: "flags_mono s s0" and tr0: "trace s0 = trace s @ evs0"
    and nc0: "filter (concerns DM_VERITY_BLOCK_TYPE_DATA blk) evs0 = []"
    by (auto dest: filter_concerns_meta)
  have fm: "\<And>u. bufio u = bufio s0 \<Longrightarrow> flags_mono s u"
    using fm0 by (rule flags_mono_bufio)
  show ?thesis
    using assms
    apply (subst (asm) verity_verify_io_LABEL.simps)
    apply (simp add: hfb Let_def split: if_splits option.splits prod.splits)
          apply (auto simp: tr0 nc0 intro!: fm
        dest!: hash_walk_facts zero_walk_facts handle_err_frame hash_init_tfm)
    done
qed

lemma io_LABEL_first_props:
  assumes "verity_verify_io_LABEL e v blk 0 sr s = Some (res, s')"
  shows "flags_mono s s' \<and>
         (\<exists>evs. trace s' = trace s @ evs \<and>
            prefix (filter (concerns DM_VERITY_BLOCK_TYPE_DATA blk) evs)
              (fallback_sequence DM_VERITY_BLOCK_TYPE_DATA blk))"
proof -
  obtain r0 dg z s0 where hfb: "verity_hash_for_block e v s blk (want_digest s) = (r0, dg, z, s0)"
    by (metis prod_cases4)
  from hash_for_block_props [OF hfb] obtain evs0 where
    fm0: "flags_mono s s0" and tr0: "trace s0 = trace s @ evs0"
    and nc0: "filter (concerns DM_VERITY_BLOCK_TYPE_DATA blk) evs0 = []"
    by (auto dest: filter_concerns_meta)
  have fm: "\<And>u. bufio u = bufio s0 \<Longrightarrow> flags_mono s u"
    using fm0 by (rule flags_mono_bufio)
  have fm2: "\<And>t u. flags_mono t u \<Longrightarrow> bufio t = bufio s0 \<Longrightarrow> flags_mono s u"
    using fm by (blast intro: flags_mono_trans)
  show ?thesis
    using assms
    apply (subst (asm) verity_verify_io_LABEL.simps)
    apply (simp add: hfb Let_def split: if_splits option.splits prod.splits)
          apply (auto simp: tr0 nc0 fallback_sequence_def intro!: fm elim!: fm2
        dest!: hash_walk_facts zero_walk_facts hash_init_tfm io_LABEL_retry_props)
    done
qed

lemma concat_split_at:
  "i < length segs \<Longrightarrow>
     concat segs = concat (take i segs) @ segs ! i @ concat (drop (Suc i) segs)"
  by (subst id_take_nth_drop [of i segs]) simp_all

lemma concat_update_at:
  "i < length segs \<Longrightarrow>
     concat (segs[i := x]) = concat (take i segs) @ x @ concat (drop (Suc i) segs)"
  by (simp add: upd_conv_take_nth_drop)

lemma zero_step:
  fixes segs :: "bytes list"
  assumes ok: "iter_ok segs it n" and pos: "0 < n"
  defines "seg \<equiv> segs ! bi_idx it"
  defines "len \<equiv> (if n \<le> length (bio_iter_iovec segs it) then n else length (bio_iter_iovec segs it))"
  defines "segs1 \<equiv> bio_store segs it (replicate len 0)"
  defines "it1 \<equiv> bio_advance_iter segs1 it len"
  shows "0 < len" "len \<le> n" "map length segs1 = map length segs"
    "concat segs1 = take (flat_pos segs it) (concat segs) @ replicate len 0
                      @ drop (flat_pos segs it + len) (concat segs)"
    "flat_pos segs1 it1 = flat_pos segs it + len"
    "iter_ok segs1 it1 (n - len)"
proof -
  from ok pos have idx: "bi_idx it < length segs"
    and dn: "bi_bvec_done it < length seg"
    and ne: "\<forall>j < length segs. bi_idx it < j \<longrightarrow> segs ! j \<noteq> []"
    and room: "flat_pos segs it + n \<le> length (concat segs)"
    by (auto simp: iter_ok_def seg_def)
  have bv: "bio_iter_iovec segs it = drop (bi_bvec_done it) seg"
    using idx by (simp add: bio_iter_iovec_def seg_def)
  have len: "len = min n (length seg - bi_bvec_done it)"
    by (auto simp: len_def bv)
  show l0: "0 < len" using dn pos by (simp add: len)
  show ln: "len \<le> n" by (simp add: len)
  have lseg: "bi_bvec_done it + len \<le> length seg" using dn by (simp add: len)
  have segs1: "segs1 = segs[bi_idx it := take (bi_bvec_done it) seg @ replicate len 0
                                          @ drop (bi_bvec_done it + len) seg]"
    using idx by (simp add: segs1_def bio_store_def seg_def)
  have lnew: "length (take (bi_bvec_done it) seg @ replicate len 0
                @ drop (bi_bvec_done it + len) seg) = length seg"
    using lseg by simp
  show ml: "map length segs1 = map length segs"
    unfolding segs1 using idx lnew
    by (simp add: map_update list_update_same_conv seg_def)
  have l1: "length segs1 = length segs" by (simp add: segs1)
  have tk: "take (bi_idx it) segs1 = take (bi_idx it) segs" by (simp add: segs1)
  have nth1: "segs1 ! bi_idx it = take (bi_bvec_done it) seg @ replicate len 0
                                    @ drop (bi_bvec_done it + len) seg"
    using idx by (simp add: segs1)
  have c: "concat segs = concat (take (bi_idx it) segs) @ seg @ concat (drop (Suc (bi_idx it)) segs)"
    using concat_split_at [OF idx] by (simp add: seg_def)
  have c1: "concat segs1 = concat (take (bi_idx it) segs)
              @ (take (bi_bvec_done it) seg @ replicate len 0 @ drop (bi_bvec_done it + len) seg)
              @ concat (drop (Suc (bi_idx it)) segs)"
    unfolding segs1 using concat_update_at [OF idx] by simp
  have t1: "take (flat_pos segs it) (concat segs)
              = concat (take (bi_idx it) segs) @ take (bi_bvec_done it) seg"
    apply (subst c)
    using dn by (simp add: flat_pos_def)
  have t2: "drop (flat_pos segs it + len) (concat segs)
              = drop (bi_bvec_done it + len) seg @ concat (drop (Suc (bi_idx it)) segs)"
    apply (subst c)
    using lseg by (simp add: flat_pos_def add.assoc)
  show cc: "concat segs1 = take (flat_pos segs it) (concat segs) @ replicate len 0
                      @ drop (flat_pos segs it + len) (concat segs)"
    by (simp add: c1 t1 t2)
  have lc: "length (concat segs1) = length (concat segs)"
    using ml by (metis length_concat) 
  show fp: "flat_pos segs1 it1 = flat_pos segs it + len"
  proof (cases "bi_bvec_done it + len = length seg")
    case True
    then have "it1 = \<lparr>bi_idx = bi_idx it + 1, bi_bvec_done = 0\<rparr>"
      using l0 idx lnew by (simp add: it1_def bio_advance_iter_def l1 nth1)
    moreover have "take (Suc (bi_idx it)) segs1 = take (bi_idx it) segs @ [segs1 ! bi_idx it]"
      using idx l1 tk by (metis take_Suc_conv_app_nth)
    ultimately show ?thesis
      using True lnew by (simp add: flat_pos_def nth1)
  next
    case False
    then have "it1 = it\<lparr>bi_bvec_done := bi_bvec_done it + len\<rparr>"
      using l0 idx lnew by (simp add: it1_def bio_advance_iter_def l1 nth1)
    then show ?thesis by (simp add: flat_pos_def tk)
  qed
  show "iter_ok segs1 it1 (n - len)"
  proof (cases "n - len = 0")
    case True
    then show ?thesis by (simp add: iter_ok_def)
  next
    case False
    then have lt: "len < n" by simp
    then have full: "bi_bvec_done it + len = length seg" using dn by (simp add: len)
    then have it1: "it1 = \<lparr>bi_idx = bi_idx it + 1, bi_bvec_done = 0\<rparr>"
      using l0 idx lnew by (simp add: it1_def bio_advance_iter_def l1 nth1)
    have endseg: "flat_pos segs it + len = length (concat (take (Suc (bi_idx it)) segs))"
      using idx full by (simp add: flat_pos_def take_Suc_conv_app_nth seg_def)
    have more: "Suc (bi_idx it) < length segs"
    proof (rule ccontr)
      assume "\<not> Suc (bi_idx it) < length segs"
      then have "take (Suc (bi_idx it)) segs = segs" by simp
      with endseg room lt show False by simp
    qed
    have nn: "\<forall>j < length segs. segs1 ! j = [] \<longleftrightarrow> segs ! j = []"
    proof (intro allI impI)
      fix j assume "j < length segs"
      then have "length (segs1 ! j) = length (segs ! j)"
        using ml l1 by (metis nth_map)
      then show "segs1 ! j = [] \<longleftrightarrow> segs ! j = []" by (metis length_0_conv)
    qed
    show ?thesis
      using more ne nn fp room lc
      by (auto simp: iter_ok_def it1 l1)
  qed
qed

lemma zero_walk_spec:
  assumes "iter_ok (bio_data s) it n"
  shows "\<exists>it' segs'.
           verity_for_bv_block verity_bv_zero n it s = Some (0, it', s\<lparr>bio_data := segs'\<rparr>) \<and>
           map length segs' = map length (bio_data s) \<and>
           concat segs' = take (flat_pos (bio_data s) it) (concat (bio_data s)) @ replicate n 0
                            @ drop (flat_pos (bio_data s) it + n) (concat (bio_data s)) \<and>
           flat_pos segs' it' = flat_pos (bio_data s) it + n"
  using assms
proof (induction n arbitrary: it s rule: less_induct)
  case (less n)
  define segs where "segs = bio_data s"
  define bv where "bv = bio_iter_iovec segs it"
  define len where "len = (if n \<le> length bv then n else length bv)"
  define segs1 where "segs1 = bio_store segs it (replicate len 0)"
  define it1 where "it1 = bio_advance_iter segs1 it len"
  define s2 where "s2 = s\<lparr>bio_data := segs1\<rparr>"
  have lenle: "len \<le> length bv" by (simp add: len_def)
  have unf: "verity_for_bv_block verity_bv_zero n it s =
               (if n - len \<noteq> 0
                then (if len = 0 then None else verity_for_bv_block verity_bv_zero (n - len) it1 s2)
                else Some (0, it1, s2))"
  proof -
    have pz: "verity_bv_zero s (take len bv) = (0, s, replicate len 0)"
      using lenle by (simp add: verity_bv_zero_def)
    show ?thesis
      apply (subst verity_for_bv_block.simps)
      apply (simp only: Let_def segs_def [symmetric])
      apply (simp only: bv_def [symmetric])
      apply (simp only: len_def [symmetric])
      apply (simp only: pz prod.case)
      apply (simp add: segs1_def s2_def it1_def segs_def)
      done
  qed
  show ?case
  proof (cases "n = 0")
    case True
    then have l0: "len = 0" by (simp add: len_def)
    have "segs1 = segs"
      by (simp add: segs1_def l0 bio_store_def)
    moreover have "it1 = it" by (simp add: it1_def l0 bio_advance_iter_def)
    ultimately have "verity_for_bv_block verity_bv_zero n it s
                       = Some (0, it, s\<lparr>bio_data := bio_data s\<rparr>)"
      using True unf by (simp add: s2_def segs_def)
    then show ?thesis
      using True by (intro exI [of _ it] exI [of _ "bio_data s"]) simp
  next
    case False
    then have pos: "0 < n" by simp
    have ok: "iter_ok segs it n" using less.prems by (simp add: segs_def)
    note st = zero_step [OF ok pos, folded bv_def, folded len_def, folded segs1_def, folded it1_def]
    show ?thesis
    proof (cases "n - len = 0")
      case True
      with st(2) have ln: "len = n" by simp
      have "verity_for_bv_block verity_bv_zero n it s = Some (0, it1, s\<lparr>bio_data := segs1\<rparr>)"
        using unf True by (simp add: s2_def)
      then show ?thesis
        using st(3,4,5) ln by (intro exI [of _ it1] exI [of _ segs1]) (simp add: segs_def)
    next
      case rest: False
      have ok2: "iter_ok (bio_data s2) it1 (n - len)" using st(6) by (simp add: s2_def)
      have lt: "n - len < n" using st(1) pos by simp
      from less.IH [OF lt ok2] obtain it' segs' where
        r: "verity_for_bv_block verity_bv_zero (n - len) it1 s2 = Some (0, it', s2\<lparr>bio_data := segs'\<rparr>)"
        and ml: "map length segs' = map length segs1"
        and cc: "concat segs' = take (flat_pos segs1 it1) (concat segs1) @ replicate (n - len) 0
                   @ drop (flat_pos segs1 it1 + (n - len)) (concat segs1)"
        and fp: "flat_pos segs' it' = flat_pos segs1 it1 + (n - len)"
        by (auto simp: s2_def)
      have room: "flat_pos segs it + n \<le> length (concat segs)"
        using ok pos by (simp add: iter_ok_def)
      define P where "P = flat_pos segs it"
      define c where "c = concat segs"
      have lp: "length (take P c) = P" using room by (simp add: P_def c_def)
      have c1: "concat segs1 = take P c @ replicate len 0 @ drop (P + len) c"
        using st(4) by (simp add: P_def c_def)
      have tk: "take (P + len) (concat segs1) = take P c @ replicate len 0"
        unfolding c1 using lp by simp
      have dr: "drop (P + len + (n - len)) (concat segs1) = drop (P + n) c"
        unfolding c1 using lp st(2) by (simp add: add.commute)
      have fp1: "flat_pos segs1 it1 = P + len" by (simp add: st(5) P_def)
      have rr: "replicate len (0::8 word) @ replicate (n - len) 0 @ drop (P + n) c
                  = replicate n 0 @ drop (P + n) c"
        using st(2) by (metis append_assoc replicate_add le_add_diff_inverse)
      have "concat segs' = take (P + len) (concat segs1) @ replicate (n - len) 0
                             @ drop (P + len + (n - len)) (concat segs1)"
        using cc by (simp only: fp1)
      also have "\<dots> = (take P c @ replicate len 0) @ replicate (n - len) 0 @ drop (P + n) c"
        by (simp only: tk dr)
      also have "\<dots> = take P c @ replicate n 0 @ drop (P + n) c"
        by (simp only: append_assoc rr)
      finally have c': "concat segs' = take P c @ replicate n 0 @ drop (P + n) c" .
      have fp': "flat_pos segs' it' = P + n" using fp fp1 st(2) by simp
      have r': "verity_for_bv_block verity_bv_zero n it s = Some (0, it', s\<lparr>bio_data := segs'\<rparr>)"
        using unf rest st(1) r by (simp add: s2_def)
      have ml': "map length segs' = map length segs" using ml st(3) by simp
      show ?thesis
        using r' ml' c' fp'
        by (intro exI [of _ it'] exI [of _ segs']) (simp add: segs_def P_def c_def)
    qed
  qed
qed




lemma walk_rc_nonpos:
  "verity_for_bv_block process todo it s = Some (r, it', s') \<Longrightarrow> r \<le> 0"
proof (induction process todo it s rule: verity_for_bv_block.induct)
  case (1 process todo it s)
  then show ?case
    apply (subst (asm) (2) verity_for_bv_block.simps)
    apply (auto simp: Let_def split: prod.splits if_splits)
    done
qed









subsection \<open>Verification of a request\<close>

lemma toy_zero_hfb:
  "verity_hash_for_block toy_env toy_zero_verity toy_state 0 (want_digest toy_state)
     = (0, [0, 4], True, toy_state)"
  by (simp add: hash_for_block_no_levels toy_zero_verity_def toy_verity_def toy_state_def
        memcpy_def memcmp_eq_def)

lemma toy_zero_walk:
  "verity_for_bv_block verity_bv_zero 4 (iter toy_state) (toy_state\<lparr>want_digest := [0, 4]\<rparr>)
     = Some (0, \<lparr>bi_idx = 1, bi_bvec_done = 1\<rparr>,
             toy_state\<lparr>want_digest := [0, 4], bio_data := [[0, 0, 0], [0, 5, 1, 1, 9, 9]]\<rparr>)"
  apply (subst verity_for_bv_block.simps)
  apply (simp add: Let_def toy_state_def bio_iter_iovec_def verity_bv_zero_def bio_store_def
      bio_advance_iter_def)
  apply (subst verity_for_bv_block.simps)
  apply (simp add: Let_def bio_iter_iovec_def verity_bv_zero_def bio_store_def
      bio_advance_iter_def)
  done

lemma toy_zero_io:
  "verity_verify_io_LABEL toy_env toy_zero_verity 0 0 (iter toy_state) toy_state
     = Some (None, toy_state\<lparr>want_digest := [0, 4],
                              bio_data := [[0, 0, 0], [0, 5, 1, 1, 9, 9]],
                              iter := \<lparr>bi_idx = 1, bi_bvec_done = 1\<rparr>\<rparr>)"
proof -
  have db: "(2::nat) ^ data_dev_block_bits toy_zero_verity = 4"
    by (simp add: toy_zero_verity_def toy_verity_def)
  show ?thesis
    apply (subst verity_verify_io_LABEL.simps)
    apply (simp add: toy_zero_hfb Let_def db toy_zero_walk)
    done
qed

lemma hash_for_block_zero_r:
  "verity_hash_for_block e v s blk digest = (r, digest', True, s0) \<Longrightarrow> r = 0"
  by (auto simp: verity_hash_for_block_def Let_def split: prod.splits if_splits)

text \<open>
  C5, as the code has it.  When \<open>verity_hash_for_block\<close> reports a zero block and the
  request holds a block of bytes from \<open>io->iter\<close> on, \<open>verity_verify_io\<close> completes the
  block: the block's bytes in the segments are zero and all other bytes are as before, no
  digest is computed over the data (descriptor, digest buffer and trace are as
  \<open>verity_hash_for_block\<close> left them), and \<open>io->iter\<close> has advanced by the block size: the
  walk that writes the zeros consumes the iterator.
\<close>

theorem zero_block_served:
  assumes hfb: "verity_hash_for_block e v s blk (want_digest s) = (r, digest, True, s0)"
    and ok: "iter_ok (bio_data s) (iter s) (2 ^ data_dev_block_bits v)"
  shows "\<exists>s'. verity_verify_io_LABEL e v blk retry_count start_retry s = Some (None, s') \<and>
           map length (bio_data s') = map length (bio_data s) \<and>
           concat (bio_data s') =
             take (flat_pos (bio_data s) (iter s)) (concat (bio_data s))
             @ replicate (2 ^ data_dev_block_bits v) 0
             @ drop (flat_pos (bio_data s) (iter s) + 2 ^ data_dev_block_bits v) (concat (bio_data s)) \<and>
           flat_pos (bio_data s') (iter s') =
             flat_pos (bio_data s) (iter s) + 2 ^ data_dev_block_bits v \<and>
           desc s' = desc s0 \<and> real_digest s' = real_digest s0 \<and> trace s' = trace s0 \<and>
           filter (concerns DM_VERITY_BLOCK_TYPE_DATA blk) (new_events s s') = []"
proof -
  have r0: "r = 0" using hfb by (rule hash_for_block_zero_r)
  from hash_for_block_props [OF hfb] obtain evs0 where
    bd: "bio_data s0 = bio_data s" and it: "iter s0 = iter s"
    and tr0: "trace s0 = trace s @ evs0"
    and nc0: "filter (concerns DM_VERITY_BLOCK_TYPE_DATA blk) evs0 = []"
    by (auto dest: filter_concerns_meta)
  define s1 where "s1 = s0\<lparr>want_digest := digest\<rparr>"
  have ok1: "iter_ok (bio_data s1) (iter s1) (2 ^ data_dev_block_bits v)"
    using ok by (simp add: s1_def bd it)
  from zero_walk_spec [OF ok1] obtain it' segs' where
    w: "verity_for_bv_block verity_bv_zero (2 ^ data_dev_block_bits v) (iter s1) s1
          = Some (0, it', s1\<lparr>bio_data := segs'\<rparr>)"
    and ml: "map length segs' = map length (bio_data s)"
    and cc: "concat segs' = take (flat_pos (bio_data s) (iter s)) (concat (bio_data s))
               @ replicate (2 ^ data_dev_block_bits v) 0
               @ drop (flat_pos (bio_data s) (iter s) + 2 ^ data_dev_block_bits v) (concat (bio_data s))"
    and fp: "flat_pos segs' it' = flat_pos (bio_data s) (iter s) + 2 ^ data_dev_block_bits v"
    by (auto simp: s1_def bd it)
  define s' where "s' = s1\<lparr>bio_data := segs', iter := it'\<rparr>"
  have res: "verity_verify_io_LABEL e v blk retry_count start_retry s = Some (None, s')"
  proof -
    have i1: "iter s1 = iter s0" by (simp add: s1_def)
    show ?thesis
      apply (subst verity_verify_io_LABEL.simps)
      using w [unfolded i1] by (simp add: hfb r0 Let_def s1_def [symmetric] s'_def)
  qed
  have "new_events s s' = evs0" by (simp add: new_events_def s'_def s1_def tr0)
  with res ml cc fp nc0 show ?thesis
    by (intro exI [of _ s']) (simp add: s'_def s1_def)
qed

theorem zero_block_served_witness:
  "verity_verify_io_LABEL toy_env toy_zero_verity 0 0 (iter toy_state) toy_state
     = Some (None, toy_state\<lparr>want_digest := [0, 4],
                              bio_data := [[0, 0, 0], [0, 5, 1, 1, 9, 9]],
                              iter := \<lparr>bi_idx = 1, bi_bvec_done = 1\<rparr>\<rparr>) \<and>
   flat_pos [[0, 0, 0], [0, 5, 1, 1, 9, 9]] \<lparr>bi_idx = 1, bi_bvec_done = 1\<rparr>
     = flat_pos (bio_data toy_state) (iter toy_state) + 2 ^ data_dev_block_bits toy_zero_verity"
proof -
  have ok: "iter_ok (bio_data toy_state) (iter toy_state) (2 ^ data_dev_block_bits toy_zero_verity)"
    by (simp add: iter_ok_def toy_state_def toy_zero_verity_def toy_verity_def flat_pos_def
          less_Suc_eq)
  from zero_block_served [OF toy_zero_hfb ok, of 0 "iter toy_state"] obtain s' where
    a: "verity_verify_io_LABEL toy_env toy_zero_verity 0 0 (iter toy_state) toy_state = Some (None, s')"
    and b: "flat_pos (bio_data s') (iter s') =
              flat_pos (bio_data toy_state) (iter toy_state) + 2 ^ data_dev_block_bits toy_zero_verity"
    by blast
  from a toy_zero_io have "s' = toy_state\<lparr>want_digest := [0, 4],
      bio_data := [[0, 0, 0], [0, 5, 1, 1, 9, 9]], iter := \<lparr>bi_idx = 1, bi_bvec_done = 1\<rparr>\<rparr>"
    by simp
  with b show ?thesis by (simp add: toy_zero_io)
qed

text \<open>
  C5, as the claim states it, fails: for the zero block 0 of the target without tree
  levels, \<open>verity_verify_io\<close> fills the four bytes of the block with zeros and leaves
  \<open>io->iter\<close> advanced from the start of segment 0 to byte 1 of segment 1.
\<close>

theorem zero_block_iterator_counterexample:
  "fst (snd (snd (verity_hash_for_block toy_env toy_zero_verity toy_state 0
                    (want_digest toy_state)))) \<and>
   verity_verify_io_LABEL toy_env toy_zero_verity 0 0 (iter toy_state) toy_state
     = Some (None, toy_state\<lparr>want_digest := [0, 4],
                              bio_data := [[0, 0, 0], [0, 5, 1, 1, 9, 9]],
                              iter := \<lparr>bi_idx = 1, bi_bvec_done = 1\<rparr>\<rparr>) \<and>
   iter (toy_state\<lparr>want_digest := [0, 4], bio_data := [[0, 0, 0], [0, 5, 1, 1, 9, 9]],
                   iter := \<lparr>bi_idx = 1, bi_bvec_done = 1\<rparr>\<rparr>) \<noteq> iter toy_state"
  by (simp add: toy_zero_hfb toy_zero_io) (simp add: toy_state_def)

















lemma verify_io_loop_flags:
  "verity_verify_io_loop e v block n b s = Some (r, s') \<Longrightarrow> flags_mono s s'"
proof (induction e v block n b s rule: verity_verify_io_loop.induct)
  case (1 e v block n b s)
  show ?case
  proof (cases "b < n")
    case False
    with "1.prems" have "s' = s" by (simp add: verity_verify_io_loop.simps [of e v block n b s])
    then show ?thesis by (simp add: flags_mono_same)
  next
    case True
    then obtain res s1 where
      lab: "verity_verify_io_LABEL e v (block + of_nat b) 0 (iter s) s = Some (res, s1)"
      using "1.prems" by (auto simp: verity_verify_io_loop.simps [of e v block n b s]
          split: option.splits)
    from io_LABEL_first_props [OF lab] have fm: "flags_mono s s1" by blast
    show ?thesis
    proof (cases res)
      case (Some r1)
      with "1.prems" True lab have "s' = s1"
        by (simp add: verity_verify_io_loop.simps [of e v block n b s])
      with fm show ?thesis by simp
    next
      case None
      with "1.prems" True lab have "verity_verify_io_loop e v block n (b + 1) s1 = Some (r, s')"
        by (simp add: verity_verify_io_loop.simps [of e v block n b s])
      from "1.IH" [OF True lab refl None this] fm show ?thesis
        by (rule flags_mono_trans [rotated])
    qed
  qed
qed

lemma verify_level_flag_set:
  assumes vl: "verity_verify_level e v s block level skip want = (r, want', s')"
    and new: "bufio s' b = Some y" "hash_verified y = 1"
    and old: "\<forall>x. bufio s b = Some x \<longrightarrow> hash_verified x \<noteq> 1"
  shows "b = fst (verity_hash_at_level v block level) \<and> r = 0 \<and>
         (memcmp_eq (real_digest s') want (digest_size v) \<or> metadata_repaired e v s block level)"
proof -
  obtain hb off where hal: "verity_hash_at_level v block level = (hb, off)" by force
  obtain rd s1 where rdq: "dm_bufio_read e s hb = (rd, s1)" by force
  note rp = bufio_read_props [OF rdq]
  have no1: "\<And>y. bufio s1 b = Some y \<Longrightarrow> hash_verified y = 1 \<Longrightarrow> False"
  proof -
    fix y assume y: "bufio s1 b = Some y" "hash_verified y = 1"
    show False
    proof (cases rd)
      case (Inl err)
      with rp y old show False by auto
    next
      case (Inr buf)
      with rp have "bufio s1 = bufio s \<or>
            (bufio s hb = None \<and> bufio s1 = (bufio s)(hb \<mapsto> buf) \<and> hash_verified buf = 0)"
        by blast
      with y old show False by (auto split: if_splits)
    qed
  qed
  show ?thesis
  proof (cases rd)
    case (Inl err)
    with vl hal rdq have "s' = s1" by (simp add: verity_verify_level_def)
    with new no1 show ?thesis by blast
  next
    case (Inr buf)
    show ?thesis
    proof (cases "hash_verified buf = 0 \<and> \<not> skip")
      case False
      with vl hal rdq Inr have "s' = dm_bufio_release s1 hb"
        by (auto simp: verity_verify_level_def split: if_splits)
      with new no1 show ?thesis by simp
    next
      case True
      obtain res buf' s2 where lab: "verity_verify_level_LABEL e v hb want 0 buf s1 = (res, buf', s2)"
        by (metis prod_cases3)
      from vl hal rdq Inr True lab have s': "s' = dm_bufio_release s2 hb"
        and r: "res = None \<longrightarrow> r = 0"
        by (auto simp: verity_verify_level_def split: option.splits)
      have rd': "real_digest s' = real_digest s2" by (simp add: s' dm_bufio_release_def)
      from LABEL_first_props [OF lab]
      have "(bufio s2 = bufio s1 \<and> buf' = buf) \<or>
          (bufio s2 = (bufio s1)(hb \<mapsto> buf') \<and> hash_verified buf' = 1 \<and> res = None \<and>
           (memcmp_eq (real_digest s2) want (digest_size v) \<or>
            fst (verity_fec_decode_metadata e hb (buf_data buf)) = 0))"
        by blast
      then show ?thesis
      proof
        assume "bufio s2 = bufio s1 \<and> buf' = buf"
        with new s' no1 show ?thesis by simp
      next
        assume a: "bufio s2 = (bufio s1)(hb \<mapsto> buf') \<and> hash_verified buf' = 1 \<and> res = None \<and>
           (memcmp_eq (real_digest s2) want (digest_size v) \<or>
            fst (verity_fec_decode_metadata e hb (buf_data buf)) = 0)"
        have "b = hb"
        proof (rule ccontr)
          assume "b \<noteq> hb"
          with a new s' have "bufio s1 b = Some y" by simp
          with new(2) no1 show False by blast
        qed
        moreover have "metadata_repaired e v s block level
                         = (fst (verity_fec_decode_metadata e hb (buf_data buf)) = 0)"
          by (simp add: metadata_repaired_def hal rdq Inr)
        ultimately show ?thesis using a r rd' by (simp add: hal)
      qed
    qed
  qed
qed

lemma toy_level_ok:
  "verity_verify_level toy_env toy_verity toy_state 0 0 False [18, 4] =
     (0, [3, 4],
      toy_state\<lparr>desc := \<lparr>tfm = TFM_SHA2CE, buffered = [3, 4, 7, 4]\<rparr>, real_digest := [18, 4],
                 bufio := [1 \<mapsto> \<lparr>buf_data = [3, 4, 7, 4], hash_verified = 1\<rparr>],
                 trace := [Bufio_read 1,
                           Hash_attempt DM_VERITY_BLOCK_TYPE_METADATA 1 TFM_SHA2CE,
                           Bufio_release 1]\<rparr>)"
proof -
  define buf where "buf = \<lparr>buf_data = [3, 4, 7, 4], hash_verified = (0::int)\<rparr>"
  define s1 where "s1 = toy_state\<lparr>trace := [Bufio_read 1], bufio := [1 \<mapsto> buf]\<rparr>"
  define d0 where "d0 = \<lparr>tfm = TFM_SHA2CE, buffered = [3, 4, 7, 4::8 word]\<rparr>"
  have hal: "verity_hash_at_level toy_verity 0 0 = (1, 0)"
    by (simp add: verity_hash_at_level_def verity_position_at_level_def toy_verity_def Let_def)
  have rd: "dm_bufio_read toy_env toy_state 1 = (Inr buf, s1)"
    by (simp add: dm_bufio_read_def toy_env_def toy_state_def Let_def dm_bufio_alloc_callback_def
          buf_def s1_def)
  have h0: "verity_hash_sel_sha toy_env toy_verity (desc s1) (buf_data buf)
              (2 ^ hash_dev_block_bits toy_verity) (real_digest s1) 0 = (0, d0, [18, 4])"
    by (simp add: toy_env_def toy_verity_def toy_state_def toy_tfm_def toy_digest_def deref_tfm_def
          verity_hash_sel_sha_def verity_hash_init_def verity_hash_update_def
          verity_hash_final_def crypto_shash_init_def crypto_shash_update_def
          crypto_shash_final_def Let_def buf_def d0_def s1_def)
  have ds: "digest_size toy_verity = 2" by (simp add: toy_verity_def)
  have lab: "verity_verify_level_LABEL toy_env toy_verity 1 [18, 4] 0 buf s1 =
               (None, buf\<lparr>hash_verified := 1\<rparr>,
                s1\<lparr>desc := d0, real_digest := [18, 4],
                    trace := trace s1 @ [Hash_attempt DM_VERITY_BLOCK_TYPE_METADATA 1 TFM_SHA2CE],
                    bufio := (bufio s1)(1 \<mapsto> buf\<lparr>hash_verified := 1\<rparr>)\<rparr>)"
    apply (subst verity_verify_level_LABEL.simps)
    apply (simp add: h0 Let_def memcmp_eq_def ds)
    apply (simp add: d0_def)
    done
  have unv: "hash_verified buf = 0" by (simp add: buf_def)
  show ?thesis
    apply (simp add: verity_verify_level_def hal rd unv lab)
    apply (simp add: memcpy_def ds s1_def d0_def buf_def toy_state_def dm_bufio_release_def)
    done
qed

lemma toy_zero_verify_io:
  "verity_verify_io toy_env toy_zero_verity 0 1 toy_state
     = Some (0, toy_state\<lparr>want_digest := [0, 4],
                           bio_data := [[0, 0, 0], [0, 5, 1, 1, 9, 9]],
                           iter := \<lparr>bi_idx = 1, bi_bvec_done = 1\<rparr>\<rparr>)"
  unfolding verity_verify_io_def
  apply (subst verity_verify_io_loop.simps)
  apply (simp add: toy_zero_io)
  apply (subst verity_verify_io_loop.simps)
  apply simp
  done

text \<open>
  C9.  \<open>hash_verified\<close> is 0 after \<open>dm_bufio_alloc_callback\<close>.  Across a call of
  \<open>verity_verify_level\<close> and across a whole \<open>verity_verify_io\<close>, every buffer that dm-bufio
  held is still held, with the flag it had or with 1, and every buffer that is new has the
  flag 0 or 1; so a flag that is 1 stays 1.  A flag that \<open>verity_verify_level\<close> newly
  sets to 1 is the flag of its hash block, the call returns 0, and the digest matched or
  the repair succeeded.  (The model runs one request at a time; every write of the flag
  stores the same value.)
\<close>

theorem hash_verified_monotonic:
  "hash_verified (dm_bufio_alloc_callback buf) = 0 \<and>
   (verity_verify_level e v s block level skip want = (r, want', s') \<longrightarrow> flags_mono s s') \<and>
   (verity_verify_level e v s block level skip want = (r, want', s') \<and>
    bufio s' b = Some y \<and> hash_verified y = 1 \<and>
    (\<forall>x. bufio s b = Some x \<longrightarrow> hash_verified x \<noteq> 1) \<longrightarrow>
      b = fst (verity_hash_at_level v block level) \<and> r = 0 \<and>
      (memcmp_eq (real_digest s') want (digest_size v) \<or> metadata_repaired e v s block level)) \<and>
   (verity_verify_io e v blk n s = Some (r', s'') \<longrightarrow> flags_mono s s'') \<and>
   (flags_mono s t \<and> bufio s b' = Some x' \<and> hash_verified x' = 1 \<longrightarrow>
      (\<exists>y'. bufio t b' = Some y' \<and> hash_verified y' = 1))"
  using verify_level_props [of e v s block level skip want r want' s']
    verify_level_flag_set [of e v s block level skip want r want' s' b y]
    verify_io_loop_flags [of e v blk n 0 s r' s''] flags_mono_keeps [of s t b' x']
  by (simp add: dm_bufio_alloc_callback_def verity_verify_io_def)

theorem hash_verified_monotonic_witness:
  "hash_verified (dm_bufio_alloc_callback \<lparr>buf_data = [3, 4, 7, 4], hash_verified = 7\<rparr>) = 0 \<and>
   flags_mono toy_state (snd (snd (verity_verify_level toy_env toy_verity toy_state 0 0 False [18, 4]))) \<and>
   bufio (snd (snd (verity_verify_level toy_env toy_verity toy_state 0 0 False [18, 4]))) 1
     = Some \<lparr>buf_data = [3, 4, 7, 4], hash_verified = 1\<rparr> \<and>
   bufio toy_state 1 = None \<and>
   (memcmp_eq (real_digest (snd (snd (verity_verify_level toy_env toy_verity toy_state 0 0 False [18, 4]))))
      [18, 4] (digest_size toy_verity) \<or>
    metadata_repaired toy_env toy_verity toy_state 0 0) \<and>
   verity_verify_io toy_env toy_zero_verity 0 1 toy_state
     = Some (0, toy_state\<lparr>want_digest := [0, 4],
                           bio_data := [[0, 0, 0], [0, 5, 1, 1, 9, 9]],
                           iter := \<lparr>bi_idx = 1, bi_bvec_done = 1\<rparr>\<rparr>) \<and>
   flags_mono toy_state (toy_state\<lparr>want_digest := [0, 4],
                           bio_data := [[0, 0, 0], [0, 5, 1, 1, 9, 9]],
                           iter := \<lparr>bi_idx = 1, bi_bvec_done = 1\<rparr>\<rparr>) \<and>
   map_option hash_verified
     (bufio (snd (snd (verity_verify_level toy_env toy_verity
        (toy_state\<lparr>bufio := [1 \<mapsto> \<lparr>buf_data = [3, 4, 7, 4], hash_verified = 1\<rparr>]\<rparr>)
        0 0 False [0, 0]))) 1) = Some 1"
proof -
  define X where "X = verity_verify_level toy_env toy_verity toy_state 0 0 False [18, 4]"
  define s1 where "s1 = toy_state\<lparr>bufio := [1 \<mapsto> \<lparr>buf_data = [3, 4, 7, 4], hash_verified = 1\<rparr>]\<rparr>"
  define Y where "Y = verity_verify_level toy_env toy_verity s1 0 0 False [0, 0]"
  have x: "verity_verify_level toy_env toy_verity toy_state 0 0 False [18, 4]
             = (fst X, fst (snd X), snd (snd X))"
    by (simp add: X_def)
  have y: "verity_verify_level toy_env toy_verity s1 0 0 False [0, 0]
             = (fst Y, fst (snd Y), snd (snd Y))"
    by (simp add: Y_def)
  have b1: "bufio s1 1 = Some \<lparr>buf_data = [3, 4, 7, 4], hash_verified = 1\<rparr>"
    by (simp add: s1_def)
  have b0: "bufio toy_state 1 = None" by (simp add: toy_state_def)
  have bx: "bufio (snd (snd X)) 1 = Some \<lparr>buf_data = [3, 4, 7, 4], hash_verified = 1\<rparr>"
    by (simp add: X_def toy_level_ok)
  note t1 = hash_verified_monotonic [where e = toy_env and v = toy_verity and s = toy_state
      and block = 0 and level = 0 and skip = False and want = "[18, 4]" and r = "fst X"
      and want' = "fst (snd X)" and s' = "snd (snd X)" and b = 1
      and y = "\<lparr>buf_data = [3, 4, 7, 4], hash_verified = 1\<rparr>"
      and buf = "\<lparr>buf_data = [3, 4, 7, 4], hash_verified = 7\<rparr>"]
  note t2 = hash_verified_monotonic [where e = toy_env and v = toy_zero_verity and s = toy_state
      and blk = 0 and n = 1 and r' = 0
      and s'' = "toy_state\<lparr>want_digest := [0, 4], bio_data := [[0, 0, 0], [0, 5, 1, 1, 9, 9]],
                         iter := \<lparr>bi_idx = 1, bi_bvec_done = 1\<rparr>\<rparr>"]
  note t3 = hash_verified_monotonic [where e = toy_env and v = toy_verity and s = s1
      and block = 0 and level = 0 and skip = False and want = "[0, 0]" and r = "fst Y"
      and want' = "fst (snd Y)" and s' = "snd (snd Y)" and t = "snd (snd Y)" and b' = 1
      and x' = "\<lparr>buf_data = [3, 4, 7, 4], hash_verified = 1\<rparr>"]
  from t3 y b1 have "\<exists>yb. bufio (snd (snd Y)) 1 = Some yb \<and> hash_verified yb = 1"
    by simp
  then have c: "map_option hash_verified (bufio (snd (snd Y)) 1) = Some 1" by auto
  from t1 x have a: "hash_verified (dm_bufio_alloc_callback \<lparr>buf_data = [3, 4, 7, 4], hash_verified = 7\<rparr>) = 0"
    and b: "flags_mono toy_state (snd (snd X))" by blast+
  from t1 x bx b0 have e: "memcmp_eq (real_digest (snd (snd X))) [18, 4] (digest_size toy_verity) \<or>
      metadata_repaired toy_env toy_verity toy_state 0 0"
    by simp
  from t2 toy_zero_verify_io have d: "flags_mono toy_state (toy_state\<lparr>want_digest := [0, 4],
                           bio_data := [[0, 0, 0], [0, 5, 1, 1, 9, 9]],
                           iter := \<lparr>bi_idx = 1, bi_bvec_done = 1\<rparr>\<rparr>)" by blast
  from a b c d e bx b0 toy_zero_verify_io show ?thesis
    by (simp add: X_def Y_def s1_def)
qed







end
